theory Spec2Isabelle
  imports Complex_Main "HOL-Library.Sublist" "HOL-Library.Multiset"
begin

section \<open>JavaScript strings\<close>

text \<open>
  A JavaScript string is a sequence of UTF-16 code units; a code unit is modelled by its
  number. \<open>S\<close> turns an ASCII literal of the source into such a sequence.
\<close>

type_synonym jsstring = "nat list"

definition S :: "string \<Rightarrow> jsstring" where
  "S cs = map of_char cs"

text \<open>
  \<open>String.prototype.trim\<close> removes WhiteSpace and LineTerminator code points from both
  ends (ECMAScript: TAB, VT, FF, SP, NBSP, ZWNBSP, the Unicode category Zs, and LF, CR,
  LS, PS).
\<close>

definition isWhiteSpace :: "nat \<Rightarrow> bool" where
  "isWhiteSpace c =
     (c = 9 \<or> c = 10 \<or> c = 11 \<or> c = 12 \<or> c = 13 \<or> c = 32 \<or> c = 160 \<or> c = 5760
      \<or> (8192 \<le> c \<and> c \<le> 8202) \<or> c = 8232 \<or> c = 8233 \<or> c = 8239 \<or> c = 8287
      \<or> c = 12288 \<or> c = 65279)"

definition trim :: "jsstring \<Rightarrow> jsstring" where
  "trim s = rev (dropWhile isWhiteSpace (rev (dropWhile isWhiteSpace s)))"

text \<open>
  \<open>s.split(sep)\<close> for a separator of one code unit: the pieces between the occurrences
  of the separator, never an empty array. \<open>splitFrom\<close> scans the string, \<open>piece\<close> is
  the piece read so far.
\<close>

fun splitFrom :: "nat \<Rightarrow> jsstring \<Rightarrow> jsstring \<Rightarrow> jsstring list" where
  "splitFrom sep piece [] = [piece]"
| "splitFrom sep piece (c # cs) =
     (if c = sep then piece # splitFrom sep [] cs else splitFrom sep (piece @ [c]) cs)"

definition split :: "nat \<Rightarrow> jsstring \<Rightarrow> jsstring list" where
  "split sep s = splitFrom sep [] s"

text \<open>\<open>parts.join(sep)\<close>.\<close>

fun join :: "jsstring \<Rightarrow> jsstring list \<Rightarrow> jsstring" where
  "join sep [] = []"
| "join sep [w] = w"
| "join sep (w # v # ws) = w @ sep @ join sep (v # ws)"

text \<open>\<open>s.replace(/c/g, d)\<close> for single code units \<open>c\<close> and \<open>d\<close>.\<close>

definition replaceAll :: "nat \<Rightarrow> nat \<Rightarrow> jsstring \<Rightarrow> jsstring" where
  "replaceAll c d s = map (\<lambda>x. if x = c then d else x) s"

text \<open>\<open>s.endsWith(t)\<close>.\<close>

definition endsWith :: "jsstring \<Rightarrow> jsstring \<Rightarrow> bool" where
  "endsWith s t = (length t \<le> length s \<and> drop (length s - length t) s = t)"

text \<open>
  Case conversion. On a string of ASCII code units \<open>toLowerCase\<close> and \<open>toUpperCase\<close>
  map the 26 letters and leave everything else alone. On any other string the result is
  that of the engine's Unicode case mapping, which is taken as a parameter \<open>u\<close>.
\<close>

definition isAscii :: "jsstring \<Rightarrow> bool" where
  "isAscii s = list_all (\<lambda>c. c < 128) s"

definition lowerUnit :: "nat \<Rightarrow> nat" where
  "lowerUnit c = (if 65 \<le> c \<and> c \<le> 90 then c + 32 else c)"

definition upperUnit :: "nat \<Rightarrow> nat" where
  "upperUnit c = (if 97 \<le> c \<and> c \<le> 122 then c - 32 else c)"

definition toLowerCase :: "(jsstring \<Rightarrow> jsstring) \<Rightarrow> jsstring \<Rightarrow> jsstring" where
  "toLowerCase u s = (if isAscii s then map lowerUnit s else u s)"

definition toUpperCase :: "(jsstring \<Rightarrow> jsstring) \<Rightarrow> jsstring \<Rightarrow> jsstring" where
  "toUpperCase u s = (if isAscii s then map upperUnit s else u s)"

text \<open>Decimal digits of a natural number, and \<open>padStart(w, '0')\<close> of them.\<close>

function dec :: "nat \<Rightarrow> jsstring" where
  "dec n = (if n < 10 then [48 + n] else dec (n div 10) @ [48 + n mod 10])"
  by pat_completeness auto
termination
  by (relation "measure id") auto

declare dec.simps [simp del]

definition pad :: "nat \<Rightarrow> nat \<Rightarrow> jsstring" where
  "pad w n = replicate (w - length (dec n)) 48 @ dec n"

section \<open>Dates\<close>

text \<open>
  A \<open>Date\<close> is modelled by the fields its formatting methods read: the calendar fields
  in UTC (\<open>toISOString\<close>), the wall-clock fields in the host's time zone and the zone's
  description (\<open>toTimeString\<close>).
\<close>

record date =
  utcYear :: nat
  utcMonth :: nat
  utcDay :: nat
  utcHours :: nat
  utcMinutes :: nat
  utcSeconds :: nat
  utcMillis :: nat
  localHours :: nat
  localMinutes :: nat
  localSeconds :: nat
  zone :: jsstring

text \<open>
  \<open>toISOString\<close>: \<open>YYYY-MM-DDTHH:mm:ss.sssZ\<close>, with the expanded year \<open>+YYYYYY\<close>
  beyond the year 9999.
\<close>

definition toISOString :: "date \<Rightarrow> jsstring" where
  "toISOString d =
     (if utcYear d \<le> 9999 then pad 4 (utcYear d) else S ''+'' @ pad 6 (utcYear d))
     @ S ''-'' @ pad 2 (utcMonth d) @ S ''-'' @ pad 2 (utcDay d)
     @ S ''T'' @ pad 2 (utcHours d) @ S '':'' @ pad 2 (utcMinutes d)
     @ S '':'' @ pad 2 (utcSeconds d) @ S ''.'' @ pad 3 (utcMillis d) @ S ''Z''"

text \<open>\<open>toTimeString\<close>: \<open>HH:mm:ss GMT+hhmm (zone name)\<close>, in local time.\<close>

definition toTimeString :: "date \<Rightarrow> jsstring" where
  "toTimeString d =
     pad 2 (localHours d) @ S '':'' @ pad 2 (localMinutes d) @ S '':''
     @ pad 2 (localSeconds d) @ S '' '' @ zone d"

text \<open>
  \<open>new Date(s)\<close> for a string in the format of \<open>toISOString\<close>, read as its time value
  (milliseconds since the epoch, from the days of the proleptic Gregorian calendar);
  \<open>None\<close> is the invalid date, whose time value is NaN.
\<close>

definition isDigit :: "nat \<Rightarrow> bool" where
  "isDigit c = (48 \<le> c \<and> c \<le> 57)"

definition number :: "jsstring \<Rightarrow> int option" where
  "number s =
     (if s \<noteq> [] \<and> list_all isDigit s
      then Some (foldl (\<lambda>a c. 10 * a + (int c - 48)) 0 s) else None)"

definition daysFromCivil :: "int \<Rightarrow> int \<Rightarrow> int \<Rightarrow> int" where
  "daysFromCivil y m d =
     (let y' = (if m \<le> 2 then y - 1 else y);
          era = y' div 400;
          yoe = y' - era * 400;
          doy = (153 * (if m > 2 then m - 3 else m + 9) + 2) div 5 + d - 1;
          doe = yoe * 365 + yoe div 4 - yoe div 100 + doy
      in era * 146097 + doe - 719468)"

definition timeValue :: "int \<Rightarrow> int \<Rightarrow> int \<Rightarrow> int \<Rightarrow> int \<Rightarrow> int \<Rightarrow> int \<Rightarrow> int option" where
  "timeValue y mo d h mi s ms =
     (if 1 \<le> mo \<and> mo \<le> 12 \<and> 1 \<le> d \<and> d \<le> 31 \<and> h < 24 \<and> mi < 60 \<and> s < 60
      then Some (daysFromCivil y mo d * 86400000 + h * 3600000 + mi * 60000 + s * 1000 + ms)
      else None)"

definition parseFields :: "jsstring \<Rightarrow> jsstring \<Rightarrow> int option" where
  "parseFields ys r =
     (if length r = 20 \<and> r ! 0 = 45 \<and> r ! 3 = 45 \<and> r ! 6 = 84 \<and> r ! 9 = 58
         \<and> r ! 12 = 58 \<and> r ! 15 = 46 \<and> r ! 19 = 90
      then
        (case (number ys, number (take 2 (drop 1 r)), number (take 2 (drop 4 r)),
               number (take 2 (drop 7 r)), number (take 2 (drop 10 r)),
               number (take 2 (drop 13 r)), number (take 3 (drop 16 r))) of
           (Some y, Some mo, Some d, Some h, Some mi, Some s, Some ms) \<Rightarrow>
             timeValue y mo d h mi s ms
         | _ \<Rightarrow> None)
      else None)"

definition parseDate :: "jsstring \<Rightarrow> int option" where
  "parseDate s =
     (if take 1 s = S ''+'' then parseFields (take 6 (drop 1 s)) (drop 7 s)
      else parseFields (take 4 s) (drop 4 s))"

section \<open>The style palette table\<close>

text \<open>The own properties of \<open>aiTemplates\<close>, in insertion order.\<close>

definition aiTemplates :: "(jsstring \<times> jsstring list) list" where
  "aiTemplates =
     [(S ''abstract'', [S ''#FF6B6B'', S ''#4ECDC4'', S ''#45B7D1'', S ''#96CEB4'', S ''#FFEAA7'']),
      (S ''nature'', [S ''#2E8B57'', S ''#3CB371'', S ''#98FB98'', S ''#8FBC8F'', S ''#00FA9A'']),
      (S ''tech'', [S ''#4169E1'', S ''#1E90FF'', S ''#00BFFF'', S ''#87CEEB'', S ''#4682B4'']),
      (S ''sunset'', [S ''#FF6B6B'', S ''#FFA726'', S ''#FFEAA7'', S ''#FD79A8'', S ''#E17055'']),
      (S ''ocean'', [S ''#0077B6'', S ''#00B4D8'', S ''#90E0EF'', S ''#CAF0F8'', S ''#03045E''])]"

text \<open>
  \<open>aiTemplates\<close> is an object literal, so its prototype is \<open>Object.prototype\<close>, and a
  property read \<open>aiTemplates[style]\<close> that finds no own property continues there. These
  are the property names of \<open>Object.prototype\<close>; each holds a function, and \<open>__proto__\<close>
  yields \<open>Object.prototype\<close> itself.
\<close>

definition objectPrototypeNames :: "jsstring list" where
  "objectPrototypeNames =
     [S ''constructor'', S ''__defineGetter__'', S ''__defineSetter__'', S ''hasOwnProperty'',
      S ''__lookupGetter__'', S ''__lookupSetter__'', S ''isPrototypeOf'',
      S ''propertyIsEnumerable'', S ''toString'', S ''valueOf'', S ''__proto__'',
      S ''toLocaleString'']"

datatype propval = Undefined | Colors "jsstring list" | Inherited jsstring

text \<open>\<open>aiTemplates[style]\<close>.\<close>

definition getTemplate :: "jsstring \<Rightarrow> propval" where
  "getTemplate style =
     (case map_of aiTemplates style of
        Some cs \<Rightarrow> Colors cs
      | None \<Rightarrow> if style \<in> set objectPrototypeNames then Inherited style else Undefined)"

text \<open>
  \<open>aiTemplates[style] || aiTemplates.abstract\<close>: arrays, functions and objects are
  truthy, \<open>undefined\<close> is not.
\<close>

definition resolveColors :: "jsstring \<Rightarrow> propval" where
  "resolveColors style =
     (case getTemplate style of
        Undefined \<Rightarrow> getTemplate (S ''abstract'')
      | v \<Rightarrow> v)"

section \<open>The environment of a request\<close>

text \<open>
  The canvas is modelled by the calls the code makes on its 2D context, in order. The
  angles of \<open>arc\<close> are always \<open>0\<close> and \<open>Math.PI * 2\<close> and are left out. Numbers are
  rationals and the arithmetic on them is exact: the rounding of IEEE doubles is not part
  of the model.
\<close>

datatype cmd =
    CreateLinearGradient rat rat rat rat
  | AddColorStop rat jsstring
  | FillStyleGradient
  | FillStyle "jsstring option"
  | FillRect rat rat rat rat
  | Save
  | Restore
  | GlobalAlpha rat
  | LineWidth rat
  | BeginPath
  | Arc rat rat rat
  | MoveTo rat rat
  | LineTo rat rat
  | ClosePath
  | Fill
  | Stroke
  | Font jsstring
  | TextAlign jsstring
  | TextBaseline jsstring
  | FillText jsstring rat rat

datatype jserror = TypeError | ReferenceError | EncodeError | IOError

text \<open>
  What a request reads from outside the program:
  \<^item> \<open>clock k\<close>: the \<open>k\<close>-th \<open>new Date()\<close> of the request;
  \<^item> \<open>uuid\<close>: the result of \<open>uuidv4()\<close>;
  \<^item> \<open>random k\<close>: the \<open>k\<close>-th \<open>Math.random()\<close>;
  \<^item> \<open>measureText font text\<close>: the width \<open>ctx.measureText(text).width\<close> under \<open>font\<close>;
  \<^item> \<open>toLocaleDateString\<close>, \<open>unicodeLower\<close>, \<open>unicodeUpper\<close>: the host's locale date
    format and Unicode case mappings;
  \<^item> \<open>toBuffer\<close>: the PNG encoder \<open>canvas.toBuffer('image/png')\<close>;
  \<^item> \<open>writeFails path\<close>: whether \<open>writeFileSync\<close> throws at \<open>path\<close>;
  \<^item> \<open>dirname\<close>: \<open>__dirname\<close>;
  \<^item> \<open>readdir\<close>: the result of \<open>readdirSync(imagesDir)\<close>, \<open>None\<close> when it throws;
  \<^item> \<open>requireDefined\<close>: whether the module scope has a \<open>require\<close> (an ES module under
    Node.js has none, and calling it throws a ReferenceError);
  \<^item> \<open>statSize path\<close>: \<open>statSync(path).size\<close>, \<open>None\<close> when it throws.
\<close>

record env =
  clock :: "nat \<Rightarrow> date"
  uuid :: jsstring
  random :: "nat \<Rightarrow> rat"
  measureText :: "jsstring \<Rightarrow> jsstring \<Rightarrow> rat"
  toLocaleDateString :: "date \<Rightarrow> jsstring"
  unicodeLower :: "jsstring \<Rightarrow> jsstring"
  unicodeUpper :: "jsstring \<Rightarrow> jsstring"
  toBuffer :: "cmd list \<Rightarrow> jserror + nat list"
  writeFails :: "jsstring \<Rightarrow> bool"
  dirname :: jsstring
  readdir :: "jsstring list option"
  requireDefined :: bool
  statSize :: "jsstring \<Rightarrow> nat option"

section \<open>The image composer\<close>

text \<open>\<open>colors[i]\<close> for a number \<open>i\<close>: \<open>undefined\<close> outside the array.\<close>

definition element :: "jsstring list \<Rightarrow> int \<Rightarrow> jsstring option" where
  "element cs i = (if 0 \<le> i \<and> i < int (length cs) then Some (cs ! nat i) else None)"

text \<open>The body of the \<open>switch\<close> of \<open>generateAIShapes\<close>; \<open>k\<close> is the next random draw.\<close>

definition shapeBody :: "(nat \<Rightarrow> rat) \<Rightarrow> nat \<Rightarrow> int \<Rightarrow> rat \<Rightarrow> rat \<Rightarrow> rat \<Rightarrow> cmd list \<times> nat" where
  "shapeBody rnd k shapeType x y sz =
     (if shapeType = 0 then ([BeginPath, Arc x y (sz / 2), Fill], k)
      else if shapeType = 1 then ([FillRect x y sz (sz * (3 / 5))], k)
      else if shapeType = 2 then
        ([BeginPath, MoveTo x (y - sz / 2), LineTo (x - sz / 2) (y + sz / 2),
          LineTo (x + sz / 2) (y + sz / 2), ClosePath, Fill], k)
      else if shapeType = 3 then
        ([LineWidth (2 + rnd k * 8), BeginPath, MoveTo x y,
          LineTo (x + sz) (y + (rnd (k + 1) - 1 / 2) * 100), Stroke], k + 2)
      else ([], k))"

text \<open>One iteration of the loop of \<open>generateAIShapes\<close>.\<close>

definition drawShape :: "(nat \<Rightarrow> rat) \<Rightarrow> jsstring list \<Rightarrow> nat \<Rightarrow> cmd list \<times> nat" where
  "drawShape rnd colors k =
     (let shapeType = \<lfloor>rnd k * 4\<rfloor>;
          x = rnd (k + 1) * 800;
          y = rnd (k + 2) * 600;
          sz = 10 + rnd (k + 3) * 100;
          color = element colors \<lfloor>rnd (k + 4) * of_nat (length colors)\<rfloor>;
          alpha = 1 / 5 + rnd (k + 5) * (1 / 2);
          (body, k') = shapeBody rnd (k + 6) shapeType x y sz
      in ([Save, GlobalAlpha alpha, FillStyle color] @ body @ [Restore], k'))"

text \<open>\<open>generateAIShapes\<close>: \<open>n\<close> iterations are left.\<close>

fun shapesLoop :: "(nat \<Rightarrow> rat) \<Rightarrow> jsstring list \<Rightarrow> nat \<Rightarrow> nat \<Rightarrow> cmd list" where
  "shapesLoop rnd colors 0 k = []"
| "shapesLoop rnd colors (Suc n) k =
     (case drawShape rnd colors k of (cmds, k') \<Rightarrow> cmds @ shapesLoop rnd colors n k')"

definition generateAIShapes :: "env \<Rightarrow> jsstring list \<Rightarrow> cmd list" where
  "generateAIShapes e colors = shapesLoop (random e) colors 20 0"

text \<open>
  The wrapping loop of \<open>addAIText\<close>: \<open>currentLine\<close>, the words from index \<open>i\<close> on, and
  \<open>lines\<close>; \<open>m\<close> is \<open>ctx.measureText(_).width\<close> under the font set before.
\<close>

fun wrapLoop :: "(jsstring \<Rightarrow> rat) \<Rightarrow> jsstring \<Rightarrow> jsstring list \<Rightarrow> jsstring list \<Rightarrow> jsstring list" where
  "wrapLoop m currentLine [] lines = lines @ [currentLine]"
| "wrapLoop m currentLine (w # ws) lines =
     (if m (currentLine @ S '' '' @ w) < 700
      then wrapLoop m (currentLine @ S '' '' @ w) ws lines
      else wrapLoop m w ws (lines @ [currentLine]))"

definition wrapText :: "(jsstring \<Rightarrow> rat) \<Rightarrow> jsstring \<Rightarrow> jsstring list" where
  "wrapText m prompt = wrapLoop m (hd (split 32 prompt)) (tl (split 32 prompt)) []"

text \<open>The \<open>forEach\<close> of \<open>addAIText\<close>, from index \<open>i\<close>.\<close>

fun drawLines :: "rat \<Rightarrow> nat \<Rightarrow> jsstring list \<Rightarrow> cmd list" where
  "drawLines startY i [] = []"
| "drawLines startY i (line # rest) =
     [FillStyle (Some (S ''rgba(0, 0, 0, 0.4)'')),
      FillText line 402 (startY + of_nat i * 40 + 2),
      FillStyle (Some (S ''#FFFFFF'')),
      FillText line 400 (startY + of_nat i * 40)]
     @ drawLines startY (Suc i) rest"

definition addAIText :: "env \<Rightarrow> jsstring \<Rightarrow> cmd list" where
  "addAIText e prompt =
     (let lines = wrapText (measureText e (S ''bold 32px Arial'')) prompt;
          startY = 300 - (of_nat (length lines) * 40) / 2
      in [FillStyle (Some (S ''#FFFFFF'')), Font (S ''bold 32px Arial''),
          TextAlign (S ''center''), TextBaseline (S ''middle'')]
         @ drawLines startY 0 lines)"

text \<open>\<open>addAISignature\<close>; the bullet is U+2022. It makes the second \<open>new Date()\<close>.\<close>

definition addAISignature :: "env \<Rightarrow> cmd list" where
  "addAISignature e =
     [Font (S ''16px Arial''), FillStyle (Some (S ''rgba(255, 255, 255, 0.8)'')),
      TextAlign (S ''center''),
      FillText (S ''AI Generated '' @ [8226] @ S '' '' @ toLocaleDateString e (clock e 1)
                @ S '' '' @ [8226] @ S '' Dynamic Art'') 400 580]"

text \<open>
  \<open>generateAIImage\<close>. When \<open>colors\<close> is a member of \<open>Object.prototype\<close>, \<open>colors[0]\<close> is
  \<open>undefined\<close>, and \<open>addColorStop\<close> throws on a color that is not a color string; so it
  does when the array is too short.
\<close>

definition generateAIImage :: "env \<Rightarrow> jsstring \<Rightarrow> jsstring \<Rightarrow> jserror + cmd list" where
  "generateAIImage e prompt style =
     (case resolveColors style of
        Colors colors \<Rightarrow>
          (case (element colors 0, element colors 1) of
             (Some c0, Some c1) \<Rightarrow>
               Inr ([CreateLinearGradient 0 0 800 600, AddColorStop 0 c0, AddColorStop 1 c1,
                     FillStyleGradient, FillRect 0 0 800 600]
                    @ generateAIShapes e colors @ addAIText e prompt @ addAISignature e)
           | _ \<Rightarrow> Inl TypeError)
      | _ \<Rightarrow> Inl TypeError)"

section \<open>The filename generator\<close>

text \<open>\<open>generateFilename\<close>; it makes the first \<open>new Date()\<close> of the request.\<close>

definition generateFilename :: "env \<Rightarrow> jsstring \<Rightarrow> jsstring \<Rightarrow> jsstring" where
  "generateFilename e prompt style =
     (let timestamp = clock e 0;
          dateStr = hd (split 84 (toISOString timestamp));
          timeStr = replaceAll 58 45 (hd (split 32 (toTimeString timestamp)));
          promptShort = toLowerCase (unicodeLower e) (join (S ''-'') (take 3 (split 32 prompt)));
          randomId = take 6 (uuid e)
      in S ''ai-'' @ style @ S ''-'' @ dateStr @ S ''-'' @ timeStr @ S ''-'' @ promptShort
         @ S ''-'' @ randomId @ S ''.png'')"

section \<open>Paths\<close>

text \<open>
  \<open>path.join\<close> of Node.js on POSIX: the non-empty arguments are joined by \<open>/\<close> and the
  result is normalised: empty segments and \<open>.\<close> are dropped, \<open>..\<close> removes the segment
  before it (and is kept, in a relative path, when there is none), a trailing slash stays.
  \<open>normalizeSegs\<close> holds the segments kept so far, last first.
\<close>

fun normalizeSegs :: "bool \<Rightarrow> jsstring list \<Rightarrow> jsstring list \<Rightarrow> jsstring list" where
  "normalizeSegs allowAboveRoot kept [] = rev kept"
| "normalizeSegs allowAboveRoot kept (seg # segs) =
     (if seg = [] \<or> seg = S ''.'' then normalizeSegs allowAboveRoot kept segs
      else if seg = S ''..'' then
        (if kept \<noteq> [] \<and> hd kept \<noteq> S ''..'' then normalizeSegs allowAboveRoot (tl kept) segs
         else if allowAboveRoot then normalizeSegs allowAboveRoot (seg # kept) segs
         else normalizeSegs allowAboveRoot kept segs)
      else normalizeSegs allowAboveRoot (seg # kept) segs)"

definition normalize :: "jsstring \<Rightarrow> jsstring" where
  "normalize path =
     (if path = [] then S ''.''
      else
        (let isAbsolute = (hd path = 47);
             trailingSeparator = (last path = 47);
             p = join (S ''/'') (normalizeSegs (\<not> isAbsolute) [] (split 47 path))
         in if p = [] then (if isAbsolute then S ''/'' else if trailingSeparator then S ''./'' else S ''.'')
            else (if isAbsolute then S ''/'' else []) @ p @ (if trailingSeparator then S ''/'' else [])))"

definition pathJoin :: "jsstring \<Rightarrow> jsstring \<Rightarrow> jsstring" where
  "pathJoin a b =
     (if a = [] \<and> b = [] then S ''.''
      else if a = [] then normalize b
      else if b = [] then normalize a
      else normalize (a @ S ''/'' @ b))"

definition imagesDir :: "env \<Rightarrow> jsstring" where
  "imagesDir e = pathJoin (dirname e) (S ''../generated-images'')"

section \<open>The API layer\<close>

datatype json =
    JStr jsstring
  | JNum int
  | JBool bool
  | JArr "json list"
  | JObj "(string \<times> json) list"

record response =
  status :: nat
  body :: json

text \<open>
  The request body of \<open>POST /api/generate\<close>, as \<open>express.json()\<close> parsed it: an object
  whose fields \<open>prompt\<close> and \<open>style\<close>, when present, are strings.
\<close>

record generateBody =
  promptField :: "jsstring option"
  styleField :: "jsstring option"

text \<open>
  The files on disk by path, and what a request did besides answering: the calls of
  \<open>generateFilename\<close>, \<open>generateAIImage\<close>, \<open>writeFileSync\<close> and \<open>console.error\<close> that
  returned.
\<close>

type_synonym disk = "jsstring \<Rightarrow> nat list option"

datatype effect =
    FilenameGenerated jsstring
  | ImageComposed
  | FileWritten jsstring
  | ErrorLogged

record outcome =
  reply :: response
  diskAfter :: disk
  effects :: "effect list"

definition failure :: "nat \<Rightarrow> string \<Rightarrow> response" where
  "failure code msg =
     \<lparr>status = code, body = JObj [(''success'', JBool False), (''error'', JStr (S msg))]\<rparr>"

text \<open>\<open>app.post('/api/generate')\<close>. \<open>res.json\<close> answers with status 200.\<close>

definition generateHandler :: "env \<Rightarrow> disk \<Rightarrow> generateBody \<Rightarrow> outcome" where
  "generateHandler e d b =
     (let style = (case styleField b of None \<Rightarrow> S ''abstract'' | Some s \<Rightarrow> s) in
      case promptField b of
        None \<Rightarrow>
          \<lparr>reply = failure 400 ''Prompt is required'', diskAfter = d, effects = []\<rparr>
      | Some prompt \<Rightarrow>
          if prompt = [] \<or> length (trim prompt) = 0
          then \<lparr>reply = failure 400 ''Prompt is required'', diskAfter = d, effects = []\<rparr>
          else
            (let filename = generateFilename e prompt style;
                 filePath = pathJoin (imagesDir e) filename
             in case generateAIImage e prompt style of
                  Inl err \<Rightarrow>
                    \<lparr>reply = failure 500 ''AI failed to generate image'', diskAfter = d,
                     effects = [FilenameGenerated filename, ErrorLogged]\<rparr>
                | Inr canvas \<Rightarrow>
                    (case toBuffer e canvas of
                       Inl err \<Rightarrow>
                         \<lparr>reply = failure 500 ''AI failed to generate image'', diskAfter = d,
                          effects = [FilenameGenerated filename, ImageComposed, ErrorLogged]\<rparr>
                     | Inr buffer \<Rightarrow>
                         if writeFails e filePath
                         then
                           \<lparr>reply = failure 500 ''AI failed to generate image'', diskAfter = d,
                            effects = [FilenameGenerated filename, ImageComposed, ErrorLogged]\<rparr>
                         else
                           \<lparr>reply =
                              \<lparr>status = 200,
                               body = JObj
                                 [(''success'', JBool True),
                                  (''filename'', JStr filename),
                                  (''prompt'', JStr prompt),
                                  (''style'', JStr style),
                                  (''url'', JStr (S ''http://localhost:5000/images/'' @ filename)),
                                  (''timestamp'', JStr (toISOString (clock e 2))),
                                  (''message'', JStr (S ''AI image generated successfully!''))]\<rparr>,
                            diskAfter = d(filePath \<mapsto> buffer),
                            effects = [FilenameGenerated filename, ImageComposed,
                                       FileWritten filePath]\<rparr>)))"

text \<open>The objects of the \<open>images\<close> array of \<open>GET /api/images\<close>.\<close>

record imageEntry =
  entryFilename :: jsstring
  entryUrl :: jsstring
  entryCreated :: jsstring
  entrySize :: jsstring

text \<open>
  \<open>(bytes / 1024).toFixed(1) + ' KB'\<close>. The division by 1024 is exact, and \<open>toFixed(1)\<close>
  takes the nearest multiple of a tenth, the larger one on a tie.
\<close>

definition sizeKB :: "nat \<Rightarrow> jsstring" where
  "sizeKB bytes =
     dec (((10 * bytes + 512) div 1024) div 10) @ S ''.''
     @ dec (((10 * bytes + 512) div 1024) mod 10) @ S '' KB''"

text \<open>
  The callback of \<open>map\<close> on the \<open>i\<close>-th listed file: it makes the \<open>i\<close>-th \<open>new Date()\<close>
  of the request, and the call of \<open>require\<close> throws where the module has none.
\<close>

definition mapEntry :: "env \<Rightarrow> nat \<Rightarrow> jsstring \<Rightarrow> jserror + imageEntry" where
  "mapEntry e i file =
     (if \<not> requireDefined e then Inl ReferenceError
      else
        (case statSize e (pathJoin (imagesDir e) file) of
           None \<Rightarrow> Inl IOError
         | Some bytes \<Rightarrow>
             Inr \<lparr>entryFilename = file,
                  entryUrl = S ''http://localhost:5000/images/'' @ file,
                  entryCreated = toISOString (clock e i),
                  entrySize = sizeKB bytes\<rparr>))"

fun mapEntries :: "env \<Rightarrow> nat \<Rightarrow> jsstring list \<Rightarrow> jserror + imageEntry list" where
  "mapEntries e i [] = Inr []"
| "mapEntries e i (file # rest) =
     (case mapEntry e i file of
        Inl err \<Rightarrow> Inl err
      | Inr x \<Rightarrow>
          (case mapEntries e (Suc i) rest of
             Inl err \<Rightarrow> Inl err
           | Inr xs \<Rightarrow> Inr (x # xs)))"

text \<open>
  \<open>Array.prototype.sort\<close> with a comparator: a stable sort that puts \<open>x\<close> after \<open>y\<close>
  when \<open>cmp x y > 0\<close>.
\<close>

fun insertBy :: "('a \<Rightarrow> 'a \<Rightarrow> int) \<Rightarrow> 'a \<Rightarrow> 'a list \<Rightarrow> 'a list" where
  "insertBy cmp x [] = [x]"
| "insertBy cmp x (y # ys) =
     (if cmp x y > 0 then y # insertBy cmp x ys else x # y # ys)"

fun sortBy :: "('a \<Rightarrow> 'a \<Rightarrow> int) \<Rightarrow> 'a list \<Rightarrow> 'a list" where
  "sortBy cmp [] = []"
| "sortBy cmp (x # xs) = insertBy cmp x (sortBy cmp xs)"

text \<open>
  The comparator \<open>(a, b) => new Date(b.created) - new Date(a.created)\<close>; a NaN result
  counts as 0 in \<open>sort\<close>.
\<close>

definition compareCreated :: "imageEntry \<Rightarrow> imageEntry \<Rightarrow> int" where
  "compareCreated a b =
     (case (parseDate (entryCreated b), parseDate (entryCreated a)) of
        (Some tb, Some ta) \<Rightarrow> tb - ta
      | _ \<Rightarrow> 0)"

text \<open>The \<open>files\<close> of \<open>app.get('/api/images')\<close>, or the exception thrown on the way.\<close>

definition listFiles :: "env \<Rightarrow> jserror + imageEntry list" where
  "listFiles e =
     (case readdir e of
        None \<Rightarrow> Inl IOError
      | Some names \<Rightarrow>
          (case mapEntries e 0 (filter (\<lambda>file. endsWith file (S ''.png'')) names) of
             Inl err \<Rightarrow> Inl err
           | Inr entries \<Rightarrow> Inr (sortBy compareCreated entries)))"

definition entryJson :: "imageEntry \<Rightarrow> json" where
  "entryJson x =
     JObj [(''filename'', JStr (entryFilename x)), (''url'', JStr (entryUrl x)),
           (''created'', JStr (entryCreated x)), (''size'', JStr (entrySize x))]"

definition imagesHandler :: "env \<Rightarrow> response" where
  "imagesHandler e =
     (case listFiles e of
        Inr files \<Rightarrow>
          \<lparr>status = 200,
           body = JObj [(''success'', JBool True), (''count'', JNum (int (length files))),
                        (''images'', JArr (map entryJson files))]\<rparr>
      | Inl err \<Rightarrow> failure 500 ''Failed to load images'')"

text \<open>
  \<open>app.get('/api/styles')\<close>. \<open>Object.keys\<close> lists the own properties in insertion order;
  \<open>JSON.stringify\<close> leaves out a property whose value is \<open>undefined\<close> or a function.
\<close>

definition colorsProperty :: "propval \<Rightarrow> (string \<times> json) list" where
  "colorsProperty v =
     (case v of
        Colors cs \<Rightarrow> [(''colors'', JArr (map JStr cs))]
      | Undefined \<Rightarrow> []
      | Inherited n \<Rightarrow> if n = S ''__proto__'' then [(''colors'', JObj [])] else [])"

definition styleJson :: "env \<Rightarrow> jsstring \<Rightarrow> json" where
  "styleJson e style =
     JObj ([(''name'', JStr style)] @ colorsProperty (getTemplate style)
           @ [(''displayName'',
               JStr (toUpperCase (unicodeUpper e) (take 1 style) @ drop 1 style))])"

definition stylesHandler :: "env \<Rightarrow> response" where
  "stylesHandler e =
     \<lparr>status = 200,
      body = JObj [(''success'', JBool True),
                   (''styles'', JArr (map (styleJson e) (map fst aiTemplates)))]\<rparr>"

section \<open>Notions the properties are stated with\<close>

text \<open>A prompt that is missing, empty or made of white space only.\<close>

definition blankPrompt :: "jsstring option \<Rightarrow> bool" where
  "blankPrompt p = (case p of None \<Rightarrow> True | Some s \<Rightarrow> list_all isWhiteSpace s)"

text \<open>The fields of a \<open>Date\<close> of the years 0 to 9999 are in their calendar ranges.\<close>

definition validDate :: "date \<Rightarrow> bool" where
  "validDate t =
     (utcYear t \<le> 9999 \<and> 1 \<le> utcMonth t \<and> utcMonth t \<le> 12 \<and> 1 \<le> utcDay t \<and> utcDay t \<le> 31
      \<and> utcHours t < 24 \<and> utcMinutes t < 60 \<and> utcSeconds t < 60 \<and> utcMillis t < 1000
      \<and> localHours t < 24 \<and> localMinutes t < 60 \<and> localSeconds t < 60)"

text \<open>
  The first word of a line, and the lines of a wrapped text whose every break was forced:
  the line before the break, extended by a space and the first word of the line after
  it, reaches the threshold.
\<close>

definition firstWord :: "jsstring \<Rightarrow> jsstring" where
  "firstWord line = hd (split 32 line)"

fun breaksForced :: "(jsstring \<Rightarrow> rat) \<Rightarrow> jsstring list \<Rightarrow> bool" where
  "breaksForced m [] = True"
| "breaksForced m [a] = True"
| "breaksForced m (a # b # rest) =
     (700 \<le> m (a @ S '' '' @ firstWord b) \<and> breaksForced m (b # rest))"

text \<open>A value of a field of a JSON object.\<close>

fun field :: "string \<Rightarrow> json \<Rightarrow> json option" where
  "field k (JObj kvs) = map_of kvs k"
| "field k v = None"

section \<open>A sample environment\<close>

definition sampleDate :: date where
  "sampleDate =
     \<lparr>utcYear = 2026, utcMonth = 11, utcDay = 3, utcHours = 7, utcMinutes = 9,
      utcSeconds = 5, utcMillis = 42, localHours = 8, localMinutes = 9, localSeconds = 5,
      zone = S ''GMT+0100 (Central European Standard Time)''\<rparr>"

definition sampleEnv :: env where
  "sampleEnv =
     \<lparr>clock = (\<lambda>k. sampleDate),
      uuid = S ''3f2a9c1e-8b47-4d05-9e6a-7c1b2d3e4f50'',
      random = (\<lambda>k. of_nat (k mod 10) / 10),
      measureText = (\<lambda>font text. 18 * of_nat (length text)),
      toLocaleDateString = (\<lambda>t. S ''11/3/2026''),
      unicodeLower = (\<lambda>s. s),
      unicodeUpper = (\<lambda>s. s),
      toBuffer = (\<lambda>canvas. Inr [137, 80, 78, 71]),
      writeFails = (\<lambda>path. False),
      dirname = S ''/app/backend'',
      readdir = Some [S ''a.png'', S ''notes.txt'', S ''b.png''],
      requireDefined = True,
      statSize = (\<lambda>path. Some 2048)\<rparr>"

text \<open>
  A second request in the same second: the clock has advanced by milliseconds, the UUID is
  another one with the same first six characters, and the encoded image differs.
\<close>

definition otherEnv :: env where
  "otherEnv = sampleEnv\<lparr>clock := (\<lambda>k. sampleDate\<lparr>utcMillis := 977\<rparr>),
                        uuid := S ''3f2a9c77-1d2e-4f3a-8b9c-0a1b2c3d4e5f'',
                        toBuffer := (\<lambda>canvas. Inr [137, 80, 78, 71, 2])\<rparr>"


section \<open>Validation of the prompt\<close>

lemma trim_blank: "length (trim s) = 0 \<longleftrightarrow> list_all isWhiteSpace s"
proof
  assume "length (trim s) = 0"
  then have a: "dropWhile isWhiteSpace (rev (dropWhile isWhiteSpace s)) = []"
    by (simp add: trim_def)
  have "dropWhile isWhiteSpace s = []"
  proof (rule ccontr)
    assume n: "dropWhile isWhiteSpace s \<noteq> []"
    then have "\<not> isWhiteSpace (hd (dropWhile isWhiteSpace s))" by (rule hd_dropWhile)
    moreover have "hd (dropWhile isWhiteSpace s) \<in> set (rev (dropWhile isWhiteSpace s))"
      using n by simp
    ultimately show False using a by (auto simp: dropWhile_eq_Nil_conv)
  qed
  then show "list_all isWhiteSpace s" by (simp add: dropWhile_eq_Nil_conv list_all_iff)
next
  assume "list_all isWhiteSpace s"
  then have "dropWhile isWhiteSpace s = []" by (simp add: dropWhile_eq_Nil_conv list_all_iff)
  then have "trim s = []" unfolding trim_def by (simp only: rev.simps dropWhile.simps)
  then show "length (trim s) = 0" by simp
qed

text \<open>
  C1. A generate request whose prompt is missing, empty or made of white space only is
  answered with status 400 and the body \<open>{success: false, error: "Prompt is required"}\<close>;
  no filename is generated, no image is composed and no file is written. With any other
  prompt the validation passes: the answer is not 400 and the first thing the handler
  does is generate the filename.
\<close>

theorem generate_rejects_blank_prompt:
  "(blankPrompt (promptField b) \<longrightarrow>
      generateHandler e d b =
        \<lparr>reply = \<lparr>status = 400,
                  body = JObj [(''success'', JBool False),
                               (''error'', JStr (S ''Prompt is required''))]\<rparr>,
         diskAfter = d, effects = []\<rparr>)
   \<and> (\<not> blankPrompt (promptField b) \<longrightarrow>
        status (reply (generateHandler e d b)) \<noteq> 400
        \<and> hd (effects (generateHandler e d b)) =
            FilenameGenerated
              (generateFilename e (the (promptField b))
                 (case styleField b of None \<Rightarrow> S ''abstract'' | Some s \<Rightarrow> s)))"
proof (cases "promptField b")
  case None
  then show ?thesis by (simp add: blankPrompt_def generateHandler_def failure_def)
next
  case (Some p)
  have e: "(p = [] \<or> length (trim p) = 0) \<longleftrightarrow> list_all isWhiteSpace p"
    using trim_blank [of p] by auto
  show ?thesis
  proof (cases "list_all isWhiteSpace p")
    case True
    with Some e show ?thesis
      by (simp add: blankPrompt_def generateHandler_def failure_def del: length_0_conv)
  next
    case False
    with Some e show ?thesis
      by (simp add: blankPrompt_def generateHandler_def failure_def Let_def
               split: sum.split del: length_0_conv)
  qed
qed

theorem generate_rejects_blank_prompt_witness:
  "blankPrompt (Some (S '' ''))
   \<and> generateHandler sampleEnv Map.empty \<lparr>promptField = Some (S '' ''), styleField = None\<rparr> =
        \<lparr>reply = \<lparr>status = 400,
                  body = JObj [(''success'', JBool False),
                               (''error'', JStr (S ''Prompt is required''))]\<rparr>,
         diskAfter = Map.empty, effects = []\<rparr>
   \<and> \<not> blankPrompt (Some (S ''a calm lake''))
   \<and> status (reply (generateHandler sampleEnv Map.empty
        \<lparr>promptField = Some (S ''a calm lake''), styleField = Some (S ''ocean'')\<rparr>)) \<noteq> 400"
  using generate_rejects_blank_prompt
      [of "\<lparr>promptField = Some (S '' ''), styleField = None\<rparr>" sampleEnv Map.empty]
    generate_rejects_blank_prompt
      [of "\<lparr>promptField = Some (S ''a calm lake''), styleField = Some (S ''ocean'')\<rparr>"
          sampleEnv Map.empty]
  by (simp add: blankPrompt_def S_def isWhiteSpace_def)

section \<open>The palette table and the styles endpoint\<close>

lemma getTemplate_own:
  "getTemplate (S ''abstract'') =
     Colors [S ''#FF6B6B'', S ''#4ECDC4'', S ''#45B7D1'', S ''#96CEB4'', S ''#FFEAA7'']"
  "getTemplate (S ''nature'') =
     Colors [S ''#2E8B57'', S ''#3CB371'', S ''#98FB98'', S ''#8FBC8F'', S ''#00FA9A'']"
  "getTemplate (S ''tech'') =
     Colors [S ''#4169E1'', S ''#1E90FF'', S ''#00BFFF'', S ''#87CEEB'', S ''#4682B4'']"
  "getTemplate (S ''sunset'') =
     Colors [S ''#FF6B6B'', S ''#FFA726'', S ''#FFEAA7'', S ''#FD79A8'', S ''#E17055'']"
  "getTemplate (S ''ocean'') =
     Colors [S ''#0077B6'', S ''#00B4D8'', S ''#90E0EF'', S ''#CAF0F8'', S ''#03045E'']"
  by (simp_all add: getTemplate_def aiTemplates_def S_def)

lemma styleJson_own:
  "styleJson e (S ''abstract'') =
     JObj [(''name'', JStr (S ''abstract'')),
           (''colors'', JArr [JStr (S ''#FF6B6B''), JStr (S ''#4ECDC4''),
              JStr (S ''#45B7D1''), JStr (S ''#96CEB4''), JStr (S ''#FFEAA7'')]),
           (''displayName'', JStr (S ''Abstract''))]"
  "styleJson e (S ''nature'') =
     JObj [(''name'', JStr (S ''nature'')),
           (''colors'', JArr [JStr (S ''#2E8B57''), JStr (S ''#3CB371''),
              JStr (S ''#98FB98''), JStr (S ''#8FBC8F''), JStr (S ''#00FA9A'')]),
           (''displayName'', JStr (S ''Nature''))]"
  "styleJson e (S ''tech'') =
     JObj [(''name'', JStr (S ''tech'')),
           (''colors'', JArr [JStr (S ''#4169E1''), JStr (S ''#1E90FF''),
              JStr (S ''#00BFFF''), JStr (S ''#87CEEB''), JStr (S ''#4682B4'')]),
           (''displayName'', JStr (S ''Tech''))]"
  "styleJson e (S ''sunset'') =
     JObj [(''name'', JStr (S ''sunset'')),
           (''colors'', JArr [JStr (S ''#FF6B6B''), JStr (S ''#FFA726''),
              JStr (S ''#FFEAA7''), JStr (S ''#FD79A8''), JStr (S ''#E17055'')]),
           (''displayName'', JStr (S ''Sunset''))]"
  "styleJson e (S ''ocean'') =
     JObj [(''name'', JStr (S ''ocean'')),
           (''colors'', JArr [JStr (S ''#0077B6''), JStr (S ''#00B4D8''),
              JStr (S ''#90E0EF''), JStr (S ''#CAF0F8''), JStr (S ''#03045E'')]),
           (''displayName'', JStr (S ''Ocean''))]"
  by (simp_all add: styleJson_def getTemplate_own colorsProperty_def)
    (simp_all add: toUpperCase_def isAscii_def upperUnit_def S_def)

lemma styleKeys:
  "map fst aiTemplates = [S ''abstract'', S ''nature'', S ''tech'', S ''sunset'', S ''ocean'']"
  by (simp add: aiTemplates_def)

text \<open>
  C9. The list-styles endpoint always answers with the same payload: the five styles
  abstract, nature, tech, sunset and ocean, in this order, each with the color list of its
  palette and a \<open>displayName\<close> that is the name with its first character in upper case.
  The payload does not depend on the environment, so two calls return identical data.
\<close>

theorem styles_payload_fixed:
  "stylesHandler e =
     \<lparr>status = 200,
      body = JObj
        [(''success'', JBool True),
         (''styles'', JArr
            [JObj [(''name'', JStr (S ''abstract'')),
                   (''colors'', JArr [JStr (S ''#FF6B6B''), JStr (S ''#4ECDC4''),
                      JStr (S ''#45B7D1''), JStr (S ''#96CEB4''), JStr (S ''#FFEAA7'')]),
                   (''displayName'', JStr (S ''Abstract''))],
             JObj [(''name'', JStr (S ''nature'')),
                   (''colors'', JArr [JStr (S ''#2E8B57''), JStr (S ''#3CB371''),
                      JStr (S ''#98FB98''), JStr (S ''#8FBC8F''), JStr (S ''#00FA9A'')]),
                   (''displayName'', JStr (S ''Nature''))],
             JObj [(''name'', JStr (S ''tech'')),
                   (''colors'', JArr [JStr (S ''#4169E1''), JStr (S ''#1E90FF''),
                      JStr (S ''#00BFFF''), JStr (S ''#87CEEB''), JStr (S ''#4682B4'')]),
                   (''displayName'', JStr (S ''Tech''))],
             JObj [(''name'', JStr (S ''sunset'')),
                   (''colors'', JArr [JStr (S ''#FF6B6B''), JStr (S ''#FFA726''),
                      JStr (S ''#FFEAA7''), JStr (S ''#FD79A8''), JStr (S ''#E17055'')]),
                   (''displayName'', JStr (S ''Sunset''))],
             JObj [(''name'', JStr (S ''ocean'')),
                   (''colors'', JArr [JStr (S ''#0077B6''), JStr (S ''#00B4D8''),
                      JStr (S ''#90E0EF''), JStr (S ''#CAF0F8''), JStr (S ''#03045E'')]),
                   (''displayName'', JStr (S ''Ocean''))]])]\<rparr>
   \<and> stylesHandler e' = stylesHandler e"
  by (simp add: stylesHandler_def styleKeys styleJson_own)

lemma getTemplate_constructor: "getTemplate (S ''constructor'') = Inherited (S ''constructor'')"
  by (simp add: getTemplate_def aiTemplates_def objectPrototypeNames_def S_def)

text \<open>
  C4 (fails on the code). The claim: a style name absent from the palette table resolves
  to the abstract palette rather than failing. The name \<open>constructor\<close> is no key of the
  table, but \<open>aiTemplates[style]\<close> finds the property that the table inherits from
  \<open>Object.prototype\<close>; it is truthy, so the fallback of \<open>||\<close> is not taken, \<open>colors\<close> is
  not the abstract palette and composing the image throws.
\<close>

theorem lookup_inherited_property:
  "S ''constructor'' \<notin> set (map fst aiTemplates)
   \<and> resolveColors (S ''constructor'') = Inherited (S ''constructor'')
   \<and> resolveColors (S ''constructor'') \<noteq> resolveColors (S ''abstract'')
   \<and> generateAIImage e prompt (S ''constructor'') = Inl TypeError"
  by (simp add: resolveColors_def generateAIImage_def getTemplate_constructor getTemplate_own styleKeys)
    (simp add: S_def)

lemma resolveColors_absent:
  "getTemplate style = Undefined \<Longrightarrow> resolveColors style = resolveColors (S ''abstract'')"
  by (simp add: resolveColors_def getTemplate_own)

lemma resolveColors_own:
  "map_of aiTemplates style = Some cs \<Longrightarrow> resolveColors style = Colors cs"
  by (simp add: resolveColors_def getTemplate_def)

lemma getTemplate_Undefined_iff:
  "getTemplate style = Undefined \<longleftrightarrow>
     style \<notin> set (map fst aiTemplates) \<and> style \<notin> set objectPrototypeNames"
proof (cases "map_of aiTemplates style")
  case None
  then have "style \<notin> fst ` set aiTemplates" by (simp add: map_of_eq_None_iff)
  with None show ?thesis by (simp add: getTemplate_def)
next
  case (Some cs)
  then have "(style, cs) \<in> set aiTemplates" by (rule map_of_SomeD)
  then have "style \<in> fst ` set aiTemplates" by force
  with Some show ?thesis by (simp add: getTemplate_def)
qed

section \<open>The filename generator: format\<close>

lemma splitFrom_append:
  "splitFrom sep p (a @ sep # b) = splitFrom sep p a @ splitFrom sep [] b"
  by (induction a arbitrary: p) auto

lemma splitFrom_no_sep: "sep \<notin> set a \<Longrightarrow> splitFrom sep p a = [p @ a]"
  by (induction a arbitrary: p) auto

lemma splitFrom_not_Nil: "splitFrom sep p s \<noteq> []"
  by (induction s arbitrary: p) auto

lemma split_not_Nil: "split sep s \<noteq> []"
  by (simp add: split_def splitFrom_not_Nil)

lemma split_first: "sep \<notin> set a \<Longrightarrow> hd (split sep (a @ sep # b)) = a"
  by (simp add: split_def splitFrom_append splitFrom_no_sep)

lemma split_hd_append: "hd (split sep (a @ sep # b)) = hd (split sep a)"
  by (simp add: split_def splitFrom_append splitFrom_not_Nil)

lemma dec_digits: "c \<in> set (dec n) \<Longrightarrow> 48 \<le> c \<and> c \<le> 57"
proof (induction n rule: dec.induct)
  case (1 n)
  show ?case
  proof (cases "n < 10")
    case True
    with "1.prems" show ?thesis by (subst (asm) dec.simps) simp
  next
    case False
    with "1.prems" have "c \<in> set (dec (n div 10)) \<or> c = 48 + n mod 10"
      by (subst (asm) dec.simps) auto
    then show ?thesis
    proof
      assume "c \<in> set (dec (n div 10))"
      with False "1.IH" show ?thesis by simp
    next
      assume "c = 48 + n mod 10"
      moreover have "n mod 10 < 10" by simp
      ultimately show ?thesis by linarith
    qed
  qed
qed

lemma pad_digits: "c \<in> set (pad w n) \<Longrightarrow> 48 \<le> c \<and> c \<le> 57"
  by (auto simp: pad_def dest: dec_digits)

lemma length_dec: "0 < k \<Longrightarrow> n < 10 ^ k \<Longrightarrow> length (dec n) \<le> k"
proof (induction n arbitrary: k rule: dec.induct)
  case (1 n)
  show ?case
  proof (cases "n < 10")
    case True
    then have "dec n = [48 + n]" by (subst dec.simps) simp
    with "1.prems" show ?thesis by simp
  next
    case False
    obtain j where k: "k = Suc j" using "1.prems"(1) by (cases k) auto
    have "0 < j"
    proof (rule ccontr)
      assume "\<not> 0 < j"
      with k "1.prems"(2) False show False by simp
    qed
    moreover have "n div 10 < 10 ^ j" using "1.prems"(2) k by (simp add: less_mult_imp_div_less mult.commute)
    ultimately have "length (dec (n div 10)) \<le> j" using "1.IH" False by simp
    moreover have "dec n = dec (n div 10) @ [48 + n mod 10]" using False by (subst dec.simps) simp
    ultimately show ?thesis using k by simp
  qed
qed

lemma length_pad: "0 < k \<Longrightarrow> n < 10 ^ k \<Longrightarrow> length (pad k n) = k"
  using length_dec [of k n] by (simp add: pad_def)

lemma dateStr_eq:
  "hd (split 84 (toISOString t)) =
     (if utcYear t \<le> 9999 then pad 4 (utcYear t) else S ''+'' @ pad 6 (utcYear t))
     @ S ''-'' @ pad 2 (utcMonth t) @ S ''-'' @ pad 2 (utcDay t)"
proof -
  let ?a = "(if utcYear t \<le> 9999 then pad 4 (utcYear t) else S ''+'' @ pad 6 (utcYear t))
     @ S ''-'' @ pad 2 (utcMonth t) @ S ''-'' @ pad 2 (utcDay t)"
  let ?b = "pad 2 (utcHours t) @ S '':'' @ pad 2 (utcMinutes t)
     @ S '':'' @ pad 2 (utcSeconds t) @ S ''.'' @ pad 3 (utcMillis t) @ S ''Z''"
  have "84 \<notin> set ?a" by (auto simp: S_def dest: pad_digits)
  then have "hd (split 84 (?a @ 84 # ?b)) = ?a" by (rule split_first)
  moreover have "toISOString t = ?a @ 84 # ?b" by (simp add: toISOString_def S_def)
  ultimately show ?thesis by (simp only:)
qed

lemma replaceAll_digits: "replaceAll 58 45 (pad w n) = pad w n"
proof -
  have "\<forall>c\<in>set (pad w n). c \<noteq> 58" by (auto dest: pad_digits)
  then show ?thesis unfolding replaceAll_def by (induction "pad w n") (auto simp: map_idI)
qed

lemma timeStr_eq:
  "replaceAll 58 45 (hd (split 32 (toTimeString t))) =
     pad 2 (localHours t) @ S ''-'' @ pad 2 (localMinutes t) @ S ''-'' @ pad 2 (localSeconds t)"
proof -
  let ?a = "pad 2 (localHours t) @ S '':'' @ pad 2 (localMinutes t) @ S '':''
     @ pad 2 (localSeconds t)"
  have "32 \<notin> set ?a" by (auto simp: S_def dest: pad_digits)
  then have "hd (split 32 (?a @ 32 # zone t)) = ?a" by (rule split_first)
  moreover have "toTimeString t = ?a @ 32 # zone t" by (simp add: toTimeString_def S_def)
  ultimately have "hd (split 32 (toTimeString t)) = ?a" by (simp only:)
  moreover have "replaceAll 58 45 (xs @ ys) = replaceAll 58 45 xs @ replaceAll 58 45 ys" for xs ys
    by (simp add: replaceAll_def)
  moreover have "replaceAll 58 45 (S '':'') = S ''-''" by (simp add: replaceAll_def S_def)
  ultimately show ?thesis by (simp add: replaceAll_digits)
qed

lemma generateFilename_form:
  "generateFilename e prompt style =
     S ''ai-'' @ style @ S ''-''
     @ (if utcYear (clock e 0) \<le> 9999 then pad 4 (utcYear (clock e 0))
        else S ''+'' @ pad 6 (utcYear (clock e 0)))
     @ S ''-'' @ pad 2 (utcMonth (clock e 0)) @ S ''-'' @ pad 2 (utcDay (clock e 0))
     @ S ''-'' @ pad 2 (localHours (clock e 0)) @ S ''-'' @ pad 2 (localMinutes (clock e 0))
     @ S ''-'' @ pad 2 (localSeconds (clock e 0))
     @ S ''-'' @ toLowerCase (unicodeLower e) (join (S ''-'') (take 3 (split 32 prompt)))
     @ S ''-'' @ take 6 (uuid e) @ S ''.png''"
  unfolding generateFilename_def Let_def dateStr_eq timeStr_eq by simp

text \<open>
  C2. For every prompt and style, and a clock in the years 0 to 9999, the filename is
  \<open>ai-{style}-{YYYY-MM-DD}-{HH-MM-SS}-{prompt part}-{id}.png\<close>: the date is the UTC date
  of the clock with 4, 2 and 2 digits, the time is its local time with 2 digits each, the
  prompt part is the first three pieces of the prompt between single spaces, joined by
  hyphens and put in lower case, and the id is the first 6 characters of the UUID.
\<close>

theorem filename_format:
  assumes "validDate (clock e 0)" and "6 \<le> length (uuid e)"
  shows "generateFilename e prompt style =
     S ''ai-'' @ style @ S ''-''
     @ pad 4 (utcYear (clock e 0)) @ S ''-'' @ pad 2 (utcMonth (clock e 0))
     @ S ''-'' @ pad 2 (utcDay (clock e 0))
     @ S ''-'' @ pad 2 (localHours (clock e 0)) @ S ''-'' @ pad 2 (localMinutes (clock e 0))
     @ S ''-'' @ pad 2 (localSeconds (clock e 0))
     @ S ''-'' @ toLowerCase (unicodeLower e) (join (S ''-'') (take 3 (split 32 prompt)))
     @ S ''-'' @ take 6 (uuid e) @ S ''.png''
   \<and> length (pad 4 (utcYear (clock e 0))) = 4
   \<and> length (pad 2 (utcMonth (clock e 0))) = 2
   \<and> length (pad 2 (utcDay (clock e 0))) = 2
   \<and> length (pad 2 (localHours (clock e 0))) = 2
   \<and> length (pad 2 (localMinutes (clock e 0))) = 2
   \<and> length (pad 2 (localSeconds (clock e 0))) = 2
   \<and> length (take 6 (uuid e)) = 6"
proof -
  have y: "utcYear (clock e 0) \<le> 9999" using assms(1) by (simp add: validDate_def)
  have "length (pad 4 (utcYear (clock e 0))) = 4"
    using assms(1) by (intro length_pad) (simp_all add: validDate_def)
  moreover have "length (pad 2 (utcMonth (clock e 0))) = 2"
    using assms(1) by (intro length_pad) (simp_all add: validDate_def)
  moreover have "length (pad 2 (utcDay (clock e 0))) = 2"
    using assms(1) by (intro length_pad) (simp_all add: validDate_def)
  moreover have "length (pad 2 (localHours (clock e 0))) = 2"
    using assms(1) by (intro length_pad) (simp_all add: validDate_def)
  moreover have "length (pad 2 (localMinutes (clock e 0))) = 2"
    using assms(1) by (intro length_pad) (simp_all add: validDate_def)
  moreover have "length (pad 2 (localSeconds (clock e 0))) = 2"
    using assms(1) by (intro length_pad) (simp_all add: validDate_def)
  moreover have "length (take 6 (uuid e)) = 6" using assms(2) by simp
  moreover note generateFilename_form [of e prompt style]
  ultimately show ?thesis using y by (simp only: if_True simp_thms)
qed

lemma sample_clock: "clock sampleEnv k = sampleDate"
  by (simp add: sampleEnv_def)

lemma sample_uuid: "uuid sampleEnv = S ''3f2a9c1e-8b47-4d05-9e6a-7c1b2d3e4f50''"
  by (simp add: sampleEnv_def)

lemma sample_filename:
  "generateFilename sampleEnv (S ''A calm lake at dawn'') (S ''ocean'') =
     S ''ai-ocean-2026-11-03-08-09-05-a-calm-lake-3f2a9c.png''"
  by (simp add: generateFilename_form sample_clock sample_uuid sampleDate_def)
    (simp add: sampleEnv_def pad_def dec.simps S_def split_def toLowerCase_def isAscii_def lowerUnit_def)

theorem filename_format_witness:
  "validDate (clock sampleEnv 0) \<and> 6 \<le> length (uuid sampleEnv)
   \<and> generateFilename sampleEnv (S ''A calm lake at dawn'') (S ''ocean'') =
       S ''ai-ocean-2026-11-03-08-09-05-a-calm-lake-3f2a9c.png''
   \<and> length (take 6 (uuid sampleEnv)) = 6"
proof -
  have v: "validDate (clock sampleEnv 0)" by (simp add: sample_clock validDate_def sampleDate_def)
  have u: "6 \<le> length (uuid sampleEnv)" by (simp add: sample_uuid S_def)
  from filename_format [OF v u, of "S ''A calm lake at dawn''" "S ''ocean''"]
  have "length (take 6 (uuid sampleEnv)) = 6" by simp
  with v u sample_filename show ?thesis by simp
qed

section \<open>The filename generator: uniqueness\<close>

lemma generateFilename_suffix:
  "\<exists>front. generateFilename e prompt style = front @ take 6 (uuid e) @ S ''.png''"
proof -
  have "generateFilename e prompt style =
      (S ''ai-'' @ style @ S ''-'' @ hd (split 84 (toISOString (clock e 0))) @ S ''-''
       @ replaceAll 58 45 (hd (split 32 (toTimeString (clock e 0)))) @ S ''-''
       @ toLowerCase (unicodeLower e) (join (S ''-'') (take 3 (split 32 prompt))) @ S ''-'')
      @ take 6 (uuid e) @ S ''.png''"
    by (simp add: generateFilename_def Let_def)
  then show ?thesis by blast
qed

lemma generateAIImage_palette:
  assumes "resolveColors style = Colors (c0 # c1 # cs)"
  shows "generateAIImage e prompt style =
     Inr ([CreateLinearGradient 0 0 800 600, AddColorStop 0 c0, AddColorStop 1 c1,
           FillStyleGradient, FillRect 0 0 800 600]
          @ generateAIShapes e (c0 # c1 # cs) @ addAIText e prompt @ addAISignature e)"
  using assms by (simp add: generateAIImage_def element_def)

lemma resolveColors_ocean:
  "resolveColors (S ''ocean'') =
     Colors [S ''#0077B6'', S ''#00B4D8'', S ''#90E0EF'', S ''#CAF0F8'', S ''#03045E'']"
  by (simp add: resolveColors_def getTemplate_own)

lemma generateHandler_success:
  assumes "\<not> list_all isWhiteSpace p"
    and "generateAIImage e p s = Inr canvas"
    and "toBuffer e canvas = Inr buffer"
    and "\<not> writeFails e (pathJoin (imagesDir e) (generateFilename e p s))"
  shows "generateHandler e d \<lparr>promptField = Some p, styleField = Some s\<rparr> =
     \<lparr>reply =
        \<lparr>status = 200,
         body = JObj
           [(''success'', JBool True),
            (''filename'', JStr (generateFilename e p s)),
            (''prompt'', JStr p),
            (''style'', JStr s),
            (''url'', JStr (S ''http://localhost:5000/images/'' @ generateFilename e p s)),
            (''timestamp'', JStr (toISOString (clock e 2))),
            (''message'', JStr (S ''AI image generated successfully!''))]\<rparr>,
      diskAfter = d(pathJoin (imagesDir e) (generateFilename e p s) \<mapsto> buffer),
      effects = [FilenameGenerated (generateFilename e p s), ImageComposed,
                 FileWritten (pathJoin (imagesDir e) (generateFilename e p s))]\<rparr>"
proof -
  have "\<not> (p = [] \<or> length (trim p) = 0)"
    using assms(1) trim_blank [of p] by auto
  then show ?thesis
    using assms(2-4) by (simp add: generateHandler_def Let_def del: length_0_conv)
qed

lemma sample_imagesDir: "imagesDir sampleEnv = S ''/app/generated-images''"
  by (simp add: imagesDir_def sampleEnv_def pathJoin_def normalize_def split_def S_def)

lemma sample_filename_lake:
  "generateFilename sampleEnv (S ''a calm lake'') (S ''ocean'') =
     S ''ai-ocean-2026-11-03-08-09-05-a-calm-lake-3f2a9c.png''"
  by (simp add: generateFilename_form sample_clock sample_uuid sampleDate_def)
    (simp add: sampleEnv_def pad_def dec.simps S_def split_def toLowerCase_def isAscii_def
       lowerUnit_def)

lemma sample_path_lake:
  "pathJoin (S ''/app/generated-images'')
      (S ''ai-ocean-2026-11-03-08-09-05-a-calm-lake-3f2a9c.png'') =
     S ''/app/generated-images/ai-ocean-2026-11-03-08-09-05-a-calm-lake-3f2a9c.png''"
  by (simp add: pathJoin_def normalize_def split_def S_def)

lemma other_fields:
  "imagesDir otherEnv = imagesDir sampleEnv"
  "writeFails otherEnv = writeFails sampleEnv"
  "toBuffer otherEnv canvas = Inr [137, 80, 78, 71, 2]"
  by (simp_all add: otherEnv_def imagesDir_def)

lemma other_filename_lake:
  "generateFilename otherEnv (S ''a calm lake'') (S ''ocean'') =
     generateFilename sampleEnv (S ''a calm lake'') (S ''ocean'')"
  by (simp add: generateFilename_form) (simp add: sampleEnv_def otherEnv_def S_def)

lemma lake_not_blank: "\<not> list_all isWhiteSpace (S ''a calm lake'')"
  by (simp add: S_def isWhiteSpace_def)

text \<open>
  C3 (fails as stated). Two requests with the same prompt and style, made in the same
  second at different milliseconds, with different UUIDs that share their first six
  characters, get the same filename; both succeed, and the second write replaces the
  file of the first.
\<close>

theorem filename_collision:
  "uuid sampleEnv \<noteq> uuid otherEnv
   \<and> utcMillis (clock sampleEnv 0) \<noteq> utcMillis (clock otherEnv 0)
   \<and> generateFilename sampleEnv (S ''a calm lake'') (S ''ocean'') =
       generateFilename otherEnv (S ''a calm lake'') (S ''ocean'')
   \<and> status (reply (generateHandler sampleEnv Map.empty
        \<lparr>promptField = Some (S ''a calm lake''), styleField = Some (S ''ocean'')\<rparr>)) = 200
   \<and> generateHandler otherEnv
        (diskAfter (generateHandler sampleEnv Map.empty
           \<lparr>promptField = Some (S ''a calm lake''), styleField = Some (S ''ocean'')\<rparr>))
        \<lparr>promptField = Some (S ''a calm lake''), styleField = Some (S ''ocean'')\<rparr> =
      \<lparr>reply =
         \<lparr>status = 200,
          body = JObj
            [(''success'', JBool True),
             (''filename'', JStr (S ''ai-ocean-2026-11-03-08-09-05-a-calm-lake-3f2a9c.png'')),
             (''prompt'', JStr (S ''a calm lake'')),
             (''style'', JStr (S ''ocean'')),
             (''url'', JStr (S ''http://localhost:5000/images/ai-ocean-2026-11-03-08-09-05-a-calm-lake-3f2a9c.png'')),
             (''timestamp'', JStr (S ''2026-11-03T07:09:05.977Z'')),
             (''message'', JStr (S ''AI image generated successfully!''))]\<rparr>,
       diskAfter =
         [S ''/app/generated-images/ai-ocean-2026-11-03-08-09-05-a-calm-lake-3f2a9c.png''
            \<mapsto> [137, 80, 78, 71, 2]],
       effects =
         [FilenameGenerated (S ''ai-ocean-2026-11-03-08-09-05-a-calm-lake-3f2a9c.png''),
          ImageComposed,
          FileWritten (S ''/app/generated-images/ai-ocean-2026-11-03-08-09-05-a-calm-lake-3f2a9c.png'')]\<rparr>"
proof -
  let ?b = "\<lparr>promptField = Some (S ''a calm lake''), styleField = Some (S ''ocean'')\<rparr>"
  let ?path = "S ''/app/generated-images/ai-ocean-2026-11-03-08-09-05-a-calm-lake-3f2a9c.png''"
  obtain c1 where c1: "generateAIImage sampleEnv (S ''a calm lake'') (S ''ocean'') = Inr c1"
    using generateAIImage_palette [OF resolveColors_ocean] by blast
  obtain c2 where c2: "generateAIImage otherEnv (S ''a calm lake'') (S ''ocean'') = Inr c2"
    using generateAIImage_palette [OF resolveColors_ocean] by blast
  have b1: "toBuffer sampleEnv c1 = Inr [137, 80, 78, 71]" by (simp add: sampleEnv_def)
  have w1: "\<not> writeFails sampleEnv p" for p by (simp add: sampleEnv_def)
  have o1: "generateHandler sampleEnv Map.empty ?b =
      \<lparr>reply =
        \<lparr>status = 200,
         body = JObj
           [(''success'', JBool True),
            (''filename'', JStr (generateFilename sampleEnv (S ''a calm lake'') (S ''ocean''))),
            (''prompt'', JStr (S ''a calm lake'')),
            (''style'', JStr (S ''ocean'')),
            (''url'', JStr (S ''http://localhost:5000/images/''
                @ generateFilename sampleEnv (S ''a calm lake'') (S ''ocean''))),
            (''timestamp'', JStr (toISOString (clock sampleEnv 2))),
            (''message'', JStr (S ''AI image generated successfully!''))]\<rparr>,
      diskAfter = Map.empty(pathJoin (imagesDir sampleEnv)
          (generateFilename sampleEnv (S ''a calm lake'') (S ''ocean'')) \<mapsto> [137, 80, 78, 71]),
      effects = [FilenameGenerated (generateFilename sampleEnv (S ''a calm lake'') (S ''ocean'')),
                 ImageComposed,
                 FileWritten (pathJoin (imagesDir sampleEnv)
                   (generateFilename sampleEnv (S ''a calm lake'') (S ''ocean'')))]\<rparr>"
    by (rule generateHandler_success [OF lake_not_blank c1 b1 w1])
  have d1: "diskAfter (generateHandler sampleEnv Map.empty ?b) = [?path \<mapsto> [137, 80, 78, 71]]"
    by (simp add: o1 sample_imagesDir sample_filename_lake sample_path_lake)
  have w2: "\<not> writeFails otherEnv p" for p by (simp add: other_fields w1)
  have iso: "toISOString (clock otherEnv 2) = S ''2026-11-03T07:09:05.977Z''"
    by (simp add: otherEnv_def sampleDate_def toISOString_def pad_def dec.simps S_def)
  have o2: "generateHandler otherEnv [?path \<mapsto> [137, 80, 78, 71]] ?b =
      \<lparr>reply =
         \<lparr>status = 200,
          body = JObj
            [(''success'', JBool True),
             (''filename'', JStr (S ''ai-ocean-2026-11-03-08-09-05-a-calm-lake-3f2a9c.png'')),
             (''prompt'', JStr (S ''a calm lake'')),
             (''style'', JStr (S ''ocean'')),
             (''url'', JStr (S ''http://localhost:5000/images/ai-ocean-2026-11-03-08-09-05-a-calm-lake-3f2a9c.png'')),
             (''timestamp'', JStr (S ''2026-11-03T07:09:05.977Z'')),
             (''message'', JStr (S ''AI image generated successfully!''))]\<rparr>,
       diskAfter = [?path \<mapsto> [137, 80, 78, 71, 2]],
       effects =
         [FilenameGenerated (S ''ai-ocean-2026-11-03-08-09-05-a-calm-lake-3f2a9c.png''),
          ImageComposed, FileWritten ?path]\<rparr>"
    by (simp add: generateHandler_success [OF lake_not_blank c2 other_fields(3) w2]
          other_fields other_filename_lake sample_imagesDir sample_filename_lake
          sample_path_lake iso)
      (simp add: S_def)
  have u: "uuid sampleEnv \<noteq> uuid otherEnv" by (simp add: sampleEnv_def otherEnv_def S_def)
  have m: "utcMillis (clock sampleEnv 0) \<noteq> utcMillis (clock otherEnv 0)"
    by (simp add: sampleEnv_def otherEnv_def sampleDate_def)
  have s1: "status (reply (generateHandler sampleEnv Map.empty ?b)) = 200" by (simp add: o1)
  show ?thesis using u m other_filename_lake s1 o2 by (simp only: d1 simp_thms)
qed

text \<open>
  C3, amended. The filename embeds the first six characters of a random UUID and a
  timestamp of one-second resolution: two filenames differ whenever their six-character
  ids differ, and the filename does not depend on the milliseconds of the clock.
\<close>

theorem filename_distinct_ids:
  "(6 \<le> length (uuid e1) \<and> 6 \<le> length (uuid e2) \<and> take 6 (uuid e1) \<noteq> take 6 (uuid e2) \<longrightarrow>
      generateFilename e1 p1 s1 \<noteq> generateFilename e2 p2 s2)
   \<and> generateFilename (e\<lparr>clock := \<lambda>k. (clock e k)\<lparr>utcMillis := ms\<rparr>\<rparr>) p s
       = generateFilename e p s"
proof (intro conjI impI)
  assume a: "6 \<le> length (uuid e1) \<and> 6 \<le> length (uuid e2) \<and> take 6 (uuid e1) \<noteq> take 6 (uuid e2)"
  obtain f1 where f1: "generateFilename e1 p1 s1 = f1 @ take 6 (uuid e1) @ S ''.png''"
    using generateFilename_suffix by blast
  obtain f2 where f2: "generateFilename e2 p2 s2 = f2 @ take 6 (uuid e2) @ S ''.png''"
    using generateFilename_suffix by blast
  have l: "length (take 6 (uuid e1) @ S ''.png'') = length (take 6 (uuid e2) @ S ''.png'')"
    using a by simp
  show "generateFilename e1 p1 s1 \<noteq> generateFilename e2 p2 s2"
  proof
    assume "generateFilename e1 p1 s1 = generateFilename e2 p2 s2"
    with f1 f2 have "f1 @ (take 6 (uuid e1) @ S ''.png'') = f2 @ (take 6 (uuid e2) @ S ''.png'')"
      by simp
    with l have "take 6 (uuid e1) @ S ''.png'' = take 6 (uuid e2) @ S ''.png''"
      by (metis append_eq_append_conv)
    with a show False by simp
  qed
next
  show "generateFilename (e\<lparr>clock := \<lambda>k. (clock e k)\<lparr>utcMillis := ms\<rparr>\<rparr>) p s
       = generateFilename e p s"
    by (simp add: generateFilename_form)
qed

theorem filename_distinct_ids_witness:
  "6 \<le> length (uuid sampleEnv) \<and> 6 \<le> length (S ''77aa01b2-0000-4000-8000-000000000000'')
   \<and> take 6 (uuid sampleEnv) \<noteq> take 6 (S ''77aa01b2-0000-4000-8000-000000000000'')
   \<and> generateFilename sampleEnv (S ''a calm lake'') (S ''ocean'') \<noteq>
       generateFilename (sampleEnv\<lparr>uuid := S ''77aa01b2-0000-4000-8000-000000000000''\<rparr>)
         (S ''a calm lake'') (S ''ocean'')"
  using filename_distinct_ids [of sampleEnv "sampleEnv\<lparr>uuid := S ''77aa01b2-0000-4000-8000-000000000000''\<rparr>"
      "S ''a calm lake''" "S ''ocean''" "S ''a calm lake''" "S ''ocean''"]
  by (simp add: sampleEnv_def S_def)

section \<open>Word wrap\<close>

lemma join_Cons: "join sep (x # xs) = (if xs = [] then x else x @ sep @ join sep xs)"
  by (cases xs) simp_all

lemma join_merge: "join sep (lines @ (cur @ sep @ w) # ws) = join sep (lines @ cur # w # ws)"
  by (induction lines) (simp_all add: join_Cons)

lemma join_splitFrom: "join [sep] (splitFrom sep p s) = p @ s"
  by (induction s arbitrary: p) (simp_all add: join_Cons splitFrom_not_Nil)

lemma join_split: "join [sep] (split sep s) = s"
  by (simp add: split_def join_splitFrom)

lemma splitFrom_pieces:
  "w \<in> set (splitFrom sep p s) \<Longrightarrow> sep \<notin> set p \<Longrightarrow> sep \<notin> set w"
proof (induction s arbitrary: p)
  case Nil
  then show ?case by simp
next
  case (Cons c cs)
  show ?case
  proof (cases "c = sep")
    case True
    with Cons.prems(1) have "w = p \<or> w \<in> set (splitFrom sep [] cs)" by simp
    then show ?thesis
    proof
      assume "w = p"
      with Cons.prems(2) show ?thesis by simp
    next
      assume "w \<in> set (splitFrom sep [] cs)"
      then show ?thesis by (rule Cons.IH) simp
    qed
  next
    case False
    with Cons.prems(1) have "w \<in> set (splitFrom sep (p @ [c]) cs)" by simp
    moreover have "sep \<notin> set (p @ [c])" using False Cons.prems(2) by auto
    ultimately show ?thesis by (rule Cons.IH)
  qed
qed

lemma split_pieces: "w \<in> set (split sep s) \<Longrightarrow> sep \<notin> set w"
  using splitFrom_pieces [of w sep "[]" s] by (simp add: split_def)

lemma firstWord_extend: "firstWord (cur @ S '' '' @ w) = firstWord cur"
  using split_hd_append [of 32 cur w] by (simp add: firstWord_def S_def)

lemma firstWord_word: "32 \<notin> set w \<Longrightarrow> firstWord w = w"
  by (simp add: firstWord_def split_def splitFrom_no_sep)

lemma wrapLoop_lines:
  "l \<in> set (wrapLoop m cur ws lines) \<Longrightarrow>
     l \<in> set lines \<or> l = cur \<or> l \<in> set ws \<or> m l < 700"
proof (induction ws arbitrary: cur lines)
  case Nil
  then show ?case by auto
next
  case (Cons w ws)
  show ?case
  proof (cases "m (cur @ S '' '' @ w) < 700")
    case True
    with Cons.prems have "l \<in> set (wrapLoop m (cur @ S '' '' @ w) ws lines)" by simp
    from Cons.IH [OF this] True show ?thesis by auto
  next
    case False
    with Cons.prems have "l \<in> set (wrapLoop m w ws (lines @ [cur]))" by simp
    from Cons.IH [OF this] show ?thesis by auto
  qed
qed

lemma join_wrapLoop:
  "join (S '' '') (wrapLoop m cur ws lines) = join (S '' '') (lines @ cur # ws)"
proof (induction ws arbitrary: cur lines)
  case Nil
  show ?case by simp
next
  case (Cons w ws)
  show ?case
  proof (cases "m (cur @ S '' '' @ w) < 700")
    case True
    then show ?thesis using Cons.IH [of "cur @ S '' '' @ w" lines] by (simp add: join_merge)
  next
    case False
    then show ?thesis using Cons.IH [of w "lines @ [cur]"] by simp
  qed
qed

lemma breaksForced_last_same:
  "breaksForced m (lines @ [a]) \<Longrightarrow> firstWord a' = firstWord a \<Longrightarrow>
     breaksForced m (lines @ [a'])"
proof (induction lines)
  case Nil
  show ?case by simp
next
  case (Cons x xs)
  then show ?case by (cases xs) simp_all
qed

lemma breaksForced_snoc:
  "breaksForced m (lines @ [a]) \<Longrightarrow> 700 \<le> m (a @ S '' '' @ firstWord b) \<Longrightarrow>
     breaksForced m (lines @ [a, b])"
proof (induction lines)
  case Nil
  then show ?case by simp
next
  case (Cons x xs)
  then show ?case by (cases xs) simp_all
qed

lemma wrapLoop_forced:
  "breaksForced m (lines @ [cur]) \<Longrightarrow> \<forall>w\<in>set ws. 32 \<notin> set w \<Longrightarrow>
     breaksForced m (wrapLoop m cur ws lines)"
proof (induction ws arbitrary: cur lines)
  case Nil
  then show ?case by simp
next
  case (Cons w ws)
  have ws: "\<forall>v\<in>set ws. 32 \<notin> set v" using Cons.prems(2) by simp
  show ?case
  proof (cases "m (cur @ S '' '' @ w) < 700")
    case True
    have "breaksForced m (lines @ [cur @ S '' '' @ w])"
      using Cons.prems(1) firstWord_extend by (rule breaksForced_last_same)
    from Cons.IH [OF this ws] True show ?thesis by simp
  next
    case False
    have "firstWord w = w" using Cons.prems(2) by (simp add: firstWord_word)
    with False have "700 \<le> m (cur @ S '' '' @ firstWord w)" by simp
    with Cons.prems(1) have "breaksForced m (lines @ [cur, w])" by (rule breaksForced_snoc)
    then have "breaksForced m ((lines @ [cur]) @ [w])" by simp
    from Cons.IH [OF this ws] False show ?thesis by simp
  qed
qed

text \<open>
  C6. For every prompt and every width function \<open>m\<close> (in \<open>addAIText\<close>, the measured width
  under the bold 32px font): a line of the wrapped text whose width reaches 700 is a
  single word of the prompt, alone on its line; every break was forced, the line before
  it extended by the next word reaching the threshold; and the lines, joined by spaces,
  are the prompt, so the words fill the lines in order.
\<close>

theorem wrap_lines_within_threshold:
  "(\<forall>l\<in>set (wrapText m prompt). 700 \<le> m l \<longrightarrow> l \<in> set (split 32 prompt))
   \<and> breaksForced m (wrapText m prompt)
   \<and> join (S '' '') (wrapText m prompt) = prompt"
proof (intro conjI ballI impI)
  fix l
  assume l: "l \<in> set (wrapText m prompt)" and w: "700 \<le> m l"
  from l have "l \<in> set [] \<or> l = hd (split 32 prompt) \<or> l \<in> set (tl (split 32 prompt)) \<or> m l < 700"
    unfolding wrapText_def by (rule wrapLoop_lines)
  with w have "l \<in> set (hd (split 32 prompt) # tl (split 32 prompt))" by auto
  then show "l \<in> set (split 32 prompt)" by (simp add: split_not_Nil)
next
  have "\<forall>w\<in>set (tl (split 32 prompt)). 32 \<notin> set w"
    using split_pieces [of _ 32 prompt] list.set_sel(2) [OF split_not_Nil] by blast
  moreover have "breaksForced m ([] @ [hd (split 32 prompt)])" by simp
  ultimately show "breaksForced m (wrapText m prompt)"
    unfolding wrapText_def by (intro wrapLoop_forced)
next
  have "join (S '' '') (wrapText m prompt) = join (S '' '') (hd (split 32 prompt) # tl (split 32 prompt))"
    by (simp add: wrapText_def join_wrapLoop)
  also have "\<dots> = join [32] (split 32 prompt)" by (simp add: split_not_Nil S_def)
  also have "\<dots> = prompt" by (rule join_split)
  finally show "join (S '' '') (wrapText m prompt) = prompt" .
qed

theorem wrap_lines_within_threshold_witness:
  "wrapText (\<lambda>text. 18 * of_nat (length text))
      (S ''see pneumonoultramicroscopicsilicovolcanoconiosis now'') =
     [S ''see'', S ''pneumonoultramicroscopicsilicovolcanoconiosis'', S ''now'']
   \<and> 700 \<le> (18 * of_nat (length (S ''pneumonoultramicroscopicsilicovolcanoconiosis'')) :: rat)
   \<and> S ''pneumonoultramicroscopicsilicovolcanoconiosis''
        \<in> set (split 32 (S ''see pneumonoultramicroscopicsilicovolcanoconiosis now''))
   \<and> breaksForced (\<lambda>text. 18 * of_nat (length text))
        [S ''see'', S ''pneumonoultramicroscopicsilicovolcanoconiosis'', S ''now'']
   \<and> join (S '' '') [S ''see'', S ''pneumonoultramicroscopicsilicovolcanoconiosis'', S ''now'']
       = S ''see pneumonoultramicroscopicsilicovolcanoconiosis now''"
proof -
  have w: "wrapText (\<lambda>text. 18 * of_nat (length text))
      (S ''see pneumonoultramicroscopicsilicovolcanoconiosis now'') =
     [S ''see'', S ''pneumonoultramicroscopicsilicovolcanoconiosis'', S ''now'']"
    by (simp add: wrapText_def split_def S_def)
  have l: "700 \<le> (18 * of_nat (length (S ''pneumonoultramicroscopicsilicovolcanoconiosis'')) :: rat)"
    by (simp add: S_def)
  show ?thesis
    using wrap_lines_within_threshold [of "\<lambda>text. 18 * of_nat (length text)"
        "S ''see pneumonoultramicroscopicsilicovolcanoconiosis now''"] l
    by (simp add: w)
qed

section \<open>Listing the images\<close>










lemma sample_iso: "toISOString sampleDate = S ''2026-11-03T07:09:05.042Z''"
  by (simp add: toISOString_def sampleDate_def pad_def dec.simps S_def)





text \<open>
  Where the module scope has no \<open>require\<close>, the callback throws on the first listed
  file, and the request fails as soon as the directory holds one \<open>.png\<close> entry.
\<close>

lemma imagesHandler_without_require:
  assumes "\<not> requireDefined e" and "readdir e = Some names"
    and "filter (\<lambda>file. endsWith file (S ''.png'')) names \<noteq> []"
  shows "imagesHandler e = failure 500 ''Failed to load images''"
proof -
  obtain f fs where "filter (\<lambda>file. endsWith file (S ''.png'')) names = f # fs"
    using assms(3) by (cases "filter (\<lambda>file. endsWith file (S ''.png'')) names") auto
  then have "listFiles e = Inl ReferenceError"
    using assms(1,2) by (simp add: listFiles_def mapEntry_def)
  then show ?thesis by (simp add: imagesHandler_def)
qed




section \<open>The style field of a generate request\<close>

lemma split_snoc_piece: "sep \<notin> set f \<Longrightarrow> split sep (dir @ sep # f) = split sep dir @ [f]"
  by (simp add: split_def splitFrom_append splitFrom_no_sep)

lemma split_one_piece: "sep \<notin> set f \<Longrightarrow> split sep f = [f]"
  by (simp add: split_def splitFrom_no_sep)

lemma normalizeSegs_snoc:
  "f \<noteq> [] \<Longrightarrow> f \<noteq> S ''.'' \<Longrightarrow> f \<noteq> S ''..'' \<Longrightarrow>
     normalizeSegs a kept (segs @ [f]) = normalizeSegs a kept segs @ [f]"
  by (induction segs arbitrary: kept a) simp_all

lemma join_snoc: "join sep (ys @ [f]) = (if ys = [] then f else join sep ys @ sep @ f)"
  by (induction ys) (simp_all add: join_Cons)

lemma endsWith_append: "endsWith (front @ f) f"
  by (simp add: endsWith_def)

lemma normalize_ends:
  assumes "47 \<notin> set f" and "f \<noteq> []" and "f \<noteq> S ''.''" and "f \<noteq> S ''..''"
    and "segs = split 47 path" and "path = front @ f" and "split 47 path = pieces @ [f]"
  shows "endsWith (normalize path) f"
proof -
  have l: "last path \<noteq> 47" using assms(1,2,6) by (metis last_appendR last_in_set)
  have p: "path \<noteq> []" using assms(2,6) by simp
  let ?ys = "normalizeSegs (hd path \<noteq> 47) [] pieces"
  have n: "normalizeSegs (hd path \<noteq> 47) [] (split 47 path) = ?ys @ [f]"
    using assms(2-4,7) by (simp add: normalizeSegs_snoc)
  have j: "join (S ''/'') (?ys @ [f]) = (if ?ys = [] then [] else join (S ''/'') ?ys @ S ''/'') @ f"
    by (simp add: join_snoc)
  have "normalize path =
      ((if hd path = 47 then S ''/'' else [])
        @ (if ?ys = [] then [] else join (S ''/'') ?ys @ S ''/'')) @ f"
    using p l assms(2) by (simp add: normalize_def Let_def n j)
  then show ?thesis by (simp only: endsWith_append)
qed

lemma pathJoin_ends:
  assumes "47 \<notin> set f" and "f \<noteq> []" and "f \<noteq> S ''.''" and "f \<noteq> S ''..''"
  shows "endsWith (pathJoin dir f) f"
proof (cases "dir = []")
  case True
  have "endsWith (normalize f) f"
    using assms by (intro normalize_ends [where front = "[]" and pieces = "[]"])
      (simp_all add: split_one_piece)
  with True assms(2) show ?thesis by (simp add: pathJoin_def)
next
  case False
  have "endsWith (normalize (dir @ S ''/'' @ f)) f"
    using assms by (intro normalize_ends [where front = "dir @ S ''/''" and pieces = "split 47 dir"])
      (simp_all add: split_snoc_piece S_def)
  with False assms(2) show ?thesis by (simp add: pathJoin_def)
qed

lemma generateFilename_prefix: "prefix (S ''ai-'' @ style @ S ''-'') (generateFilename e prompt style)"
  by (simp add: generateFilename_def Let_def)

lemma generateFilename_start: "\<exists>rest. generateFilename e prompt style = 97 # 105 # 45 # rest"
  by (simp add: generateFilename_def Let_def S_def)

lemma generateFilename_not_dots:
  "generateFilename e prompt style \<noteq> []"
  "generateFilename e prompt style \<noteq> S ''.''"
  "generateFilename e prompt style \<noteq> S ''..''"
  using generateFilename_start [of e prompt style] by (auto simp: S_def)

lemma generateAIImage_absent:
  "getTemplate style = Undefined \<Longrightarrow>
     generateAIImage e prompt style = generateAIImage e prompt (S ''abstract'')"
  by (simp add: generateAIImage_def resolveColors_absent)

lemma generateHandler_cases:
  assumes "\<not> list_all isWhiteSpace p"
  shows "status (reply (generateHandler e d \<lparr>promptField = Some p, styleField = Some s\<rparr>)) = 500
     \<or> (\<exists>canvas buffer.
          generateAIImage e p s = Inr canvas \<and> toBuffer e canvas = Inr buffer
          \<and> \<not> writeFails e (pathJoin (imagesDir e) (generateFilename e p s)))"
proof -
  have "\<not> (p = [] \<or> length (trim p) = 0)"
    using assms trim_blank [of p] by auto
  then show ?thesis
    by (simp add: generateHandler_def Let_def failure_def split: sum.split del: length_0_conv)
qed

text \<open>
  C10, amended. The generate endpoint does not validate the style: with a prompt that is
  not blank the answer is never 400, whatever the style string. The filename starts with
  \<open>ai-\<close>, the style as given, and a hyphen. When the answer is a success, its \<open>style\<close>
  field is the style as given, its \<open>filename\<close> field is that filename, and the file is
  written at \<open>path.join\<close> of the images directory and the filename; this path ends with
  the filename when the filename has no slash. For a style that is no property name of
  the table object, the image is the one of the style \<open>abstract\<close>.
\<close>

theorem generate_embeds_style:
  assumes "\<not> blankPrompt (Some p)"
  shows "(let out = generateHandler e d \<lparr>promptField = Some p, styleField = Some s\<rparr>;
              filename = generateFilename e p s;
              filePath = pathJoin (imagesDir e) filename
          in status (reply out) \<noteq> 400
             \<and> prefix (S ''ai-'' @ s @ S ''-'') filename
             \<and> (status (reply out) = 200 \<longrightarrow>
                  field ''style'' (body (reply out)) = Some (JStr s)
                  \<and> field ''filename'' (body (reply out)) = Some (JStr filename)
                  \<and> effects out = [FilenameGenerated filename, ImageComposed, FileWritten filePath]
                  \<and> dom (diskAfter out) = insert filePath (dom d))
             \<and> (47 \<notin> set filename \<longrightarrow> endsWith filePath filename)
             \<and> (getTemplate s = Undefined \<longrightarrow>
                  generateAIImage e p s = generateAIImage e p (S ''abstract'')))"
proof -
  let ?out = "generateHandler e d \<lparr>promptField = Some p, styleField = Some s\<rparr>"
  let ?fn = "generateFilename e p s"
  let ?path = "pathJoin (imagesDir e) ?fn"
  have nb: "\<not> list_all isWhiteSpace p" using assms by (simp add: blankPrompt_def)
  have a: "status (reply ?out) \<noteq> 400"
    using generateHandler_cases [OF nb, of e d s] generateHandler_success [OF nb, of e s _ _ d]
    by auto
  have b: "status (reply ?out) = 200 \<longrightarrow>
      field ''style'' (body (reply ?out)) = Some (JStr s)
      \<and> field ''filename'' (body (reply ?out)) = Some (JStr ?fn)
      \<and> effects ?out = [FilenameGenerated ?fn, ImageComposed, FileWritten ?path]
      \<and> dom (diskAfter ?out) = insert ?path (dom d)"
  proof
    assume "status (reply ?out) = 200"
    with generateHandler_cases [OF nb, of e d s] obtain canvas buffer
      where "generateAIImage e p s = Inr canvas" and "toBuffer e canvas = Inr buffer"
        and "\<not> writeFails e ?path" by auto
    from generateHandler_success [OF nb this, of d]
    show "field ''style'' (body (reply ?out)) = Some (JStr s)
      \<and> field ''filename'' (body (reply ?out)) = Some (JStr ?fn)
      \<and> effects ?out = [FilenameGenerated ?fn, ImageComposed, FileWritten ?path]
      \<and> dom (diskAfter ?out) = insert ?path (dom d)"
      by simp
  qed
  have c: "47 \<notin> set ?fn \<longrightarrow> endsWith ?path ?fn"
    using pathJoin_ends [OF _ generateFilename_not_dots, of e p s "imagesDir e"] by blast
  show ?thesis
    unfolding Let_def using a b c generateFilename_prefix [of s e p] generateAIImage_absent [of s e p]
    by blast
qed

lemma resolveColors_unknown:
  "getTemplate (S ''a/../b'') = Undefined"
  "getTemplate (S ''vaporwave'') = Undefined"
  by (simp_all add: getTemplate_def aiTemplates_def objectPrototypeNames_def S_def)

lemma resolveColors_abstract:
  "resolveColors (S ''abstract'') =
     Colors [S ''#FF6B6B'', S ''#4ECDC4'', S ''#45B7D1'', S ''#96CEB4'', S ''#FFEAA7'']"
  by (simp add: resolveColors_def getTemplate_own)

lemma sample_filename_dots:
  "generateFilename sampleEnv (S ''a calm lake'') (S ''a/../b'') =
     S ''ai-a/../b-2026-11-03-08-09-05-a-calm-lake-3f2a9c.png''"
  by (simp add: generateFilename_form sample_clock sample_uuid sampleDate_def)
    (simp add: sampleEnv_def pad_def dec.simps S_def split_def toLowerCase_def isAscii_def
       lowerUnit_def)

lemma sample_path_dots:
  "pathJoin (S ''/app/generated-images'')
      (S ''ai-a/../b-2026-11-03-08-09-05-a-calm-lake-3f2a9c.png'') =
     S ''/app/generated-images/b-2026-11-03-08-09-05-a-calm-lake-3f2a9c.png''"
  by (simp add: pathJoin_def normalize_def split_def S_def)

text \<open>
  C10 (fails as stated). With the style \<open>a/../b\<close> the request succeeds, the answer and
  the filename carry the style as given, but \<open>path.join\<close> normalises the path of the
  file: the segment \<open>ai-a\<close> is removed by the \<open>..\<close> after it, and the style does not
  occur in the path written.
\<close>

theorem write_path_drops_style:
  "\<not> blankPrompt (Some (S ''a calm lake''))
   \<and> generateHandler sampleEnv Map.empty
        \<lparr>promptField = Some (S ''a calm lake''), styleField = Some (S ''a/../b'')\<rparr> =
      \<lparr>reply =
         \<lparr>status = 200,
          body = JObj
            [(''success'', JBool True),
             (''filename'', JStr (S ''ai-a/../b-2026-11-03-08-09-05-a-calm-lake-3f2a9c.png'')),
             (''prompt'', JStr (S ''a calm lake'')),
             (''style'', JStr (S ''a/../b'')),
             (''url'', JStr (S ''http://localhost:5000/images/ai-a/../b-2026-11-03-08-09-05-a-calm-lake-3f2a9c.png'')),
             (''timestamp'', JStr (S ''2026-11-03T07:09:05.042Z'')),
             (''message'', JStr (S ''AI image generated successfully!''))]\<rparr>,
       diskAfter =
         [S ''/app/generated-images/b-2026-11-03-08-09-05-a-calm-lake-3f2a9c.png''
            \<mapsto> [137, 80, 78, 71]],
       effects =
         [FilenameGenerated (S ''ai-a/../b-2026-11-03-08-09-05-a-calm-lake-3f2a9c.png''),
          ImageComposed,
          FileWritten (S ''/app/generated-images/b-2026-11-03-08-09-05-a-calm-lake-3f2a9c.png'')]\<rparr>
   \<and> \<not> sublist (S ''a/../b'')
         (S ''/app/generated-images/b-2026-11-03-08-09-05-a-calm-lake-3f2a9c.png'')"
proof -
  have nb: "\<not> blankPrompt (Some (S ''a calm lake''))"
    using lake_not_blank by (simp add: blankPrompt_def)
  have r: "resolveColors (S ''a/../b'') =
      Colors [S ''#FF6B6B'', S ''#4ECDC4'', S ''#45B7D1'', S ''#96CEB4'', S ''#FFEAA7'']"
    using resolveColors_absent [OF resolveColors_unknown(1)] by (simp add: resolveColors_abstract)
  obtain c where c: "generateAIImage sampleEnv (S ''a calm lake'') (S ''a/../b'') = Inr c"
    using generateAIImage_palette [OF r] by blast
  have b: "toBuffer sampleEnv c = Inr [137, 80, 78, 71]" by (simp add: sampleEnv_def)
  have w: "\<not> writeFails sampleEnv p" for p by (simp add: sampleEnv_def)
  have u: "S ''http://localhost:5000/images/''
      @ S ''ai-a/../b-2026-11-03-08-09-05-a-calm-lake-3f2a9c.png'' =
      S ''http://localhost:5000/images/ai-a/../b-2026-11-03-08-09-05-a-calm-lake-3f2a9c.png''"
    by (simp add: S_def)
  have h: "generateHandler sampleEnv Map.empty
        \<lparr>promptField = Some (S ''a calm lake''), styleField = Some (S ''a/../b'')\<rparr> =
      \<lparr>reply =
         \<lparr>status = 200,
          body = JObj
            [(''success'', JBool True),
             (''filename'', JStr (S ''ai-a/../b-2026-11-03-08-09-05-a-calm-lake-3f2a9c.png'')),
             (''prompt'', JStr (S ''a calm lake'')),
             (''style'', JStr (S ''a/../b'')),
             (''url'', JStr (S ''http://localhost:5000/images/ai-a/../b-2026-11-03-08-09-05-a-calm-lake-3f2a9c.png'')),
             (''timestamp'', JStr (S ''2026-11-03T07:09:05.042Z'')),
             (''message'', JStr (S ''AI image generated successfully!''))]\<rparr>,
       diskAfter =
         [S ''/app/generated-images/b-2026-11-03-08-09-05-a-calm-lake-3f2a9c.png''
            \<mapsto> [137, 80, 78, 71]],
       effects =
         [FilenameGenerated (S ''ai-a/../b-2026-11-03-08-09-05-a-calm-lake-3f2a9c.png''),
          ImageComposed,
          FileWritten (S ''/app/generated-images/b-2026-11-03-08-09-05-a-calm-lake-3f2a9c.png'')]\<rparr>"
    by (simp only: generateHandler_success [OF lake_not_blank c b w] sample_imagesDir
          sample_filename_dots sample_path_dots sample_clock sample_iso u)
  have s: "\<not> sublist (S ''a/../b'')
         (S ''/app/generated-images/b-2026-11-03-08-09-05-a-calm-lake-3f2a9c.png'')"
    by (simp add: S_def sublist_Cons_right)
  show ?thesis using nb h s by (simp only: simp_thms)
qed

lemma sample_filename_vapor:
  "generateFilename sampleEnv (S ''a calm lake'') (S ''vaporwave'') =
     S ''ai-vaporwave-2026-11-03-08-09-05-a-calm-lake-3f2a9c.png''"
  by (simp add: generateFilename_form sample_clock sample_uuid sampleDate_def)
    (simp add: sampleEnv_def pad_def dec.simps S_def split_def toLowerCase_def isAscii_def
       lowerUnit_def)

theorem generate_embeds_style_witness:
  "\<not> blankPrompt (Some (S ''a calm lake''))
   \<and> status (reply (generateHandler sampleEnv Map.empty
        \<lparr>promptField = Some (S ''a calm lake''), styleField = Some (S ''vaporwave'')\<rparr>)) = 200
   \<and> 47 \<notin> set (generateFilename sampleEnv (S ''a calm lake'') (S ''vaporwave''))
   \<and> getTemplate (S ''vaporwave'') = Undefined
   \<and> field ''style'' (body (reply (generateHandler sampleEnv Map.empty
        \<lparr>promptField = Some (S ''a calm lake''), styleField = Some (S ''vaporwave'')\<rparr>)))
       = Some (JStr (S ''vaporwave''))
   \<and> endsWith (pathJoin (imagesDir sampleEnv)
          (generateFilename sampleEnv (S ''a calm lake'') (S ''vaporwave'')))
        (generateFilename sampleEnv (S ''a calm lake'') (S ''vaporwave''))
   \<and> generateAIImage sampleEnv (S ''a calm lake'') (S ''vaporwave'')
       = generateAIImage sampleEnv (S ''a calm lake'') (S ''abstract'')"
proof -
  have nb: "\<not> blankPrompt (Some (S ''a calm lake''))"
    using lake_not_blank by (simp add: blankPrompt_def)
  have r: "resolveColors (S ''vaporwave'') =
      Colors [S ''#FF6B6B'', S ''#4ECDC4'', S ''#45B7D1'', S ''#96CEB4'', S ''#FFEAA7'']"
    using resolveColors_absent [OF resolveColors_unknown(2)] by (simp add: resolveColors_abstract)
  obtain c where c: "generateAIImage sampleEnv (S ''a calm lake'') (S ''vaporwave'') = Inr c"
    using generateAIImage_palette [OF r] by blast
  have b: "toBuffer sampleEnv c = Inr [137, 80, 78, 71]" by (simp add: sampleEnv_def)
  have w: "\<not> writeFails sampleEnv p" for p by (simp add: sampleEnv_def)
  have s: "status (reply (generateHandler sampleEnv Map.empty
        \<lparr>promptField = Some (S ''a calm lake''), styleField = Some (S ''vaporwave'')\<rparr>)) = 200"
    by (simp add: generateHandler_success [OF lake_not_blank c b w])
  have f: "47 \<notin> set (generateFilename sampleEnv (S ''a calm lake'') (S ''vaporwave''))"
    by (simp add: sample_filename_vapor) (simp add: S_def)
  show ?thesis
    using generate_embeds_style [OF nb, of sampleEnv Map.empty "S ''vaporwave''"]
      nb s f resolveColors_unknown(2)
    by (simp add: Let_def)
qed

end
